theory Spec2Isabelle
  imports Complex_Main
begin

section \<open>Values of the tensor runtime\<close>

text \<open>
  The model is written over the real numbers: a tensor entry is a \<open>real\<close>, and the
  runtime's elementwise functions (\<open>exp\<close>, \<open>sqrt\<close>) are the mathematical ones. Rounding
  is not modelled. A tensor is a nested list, outermost dimension first; every dimension
  is taken to be non-empty, as it is for a batch of token sequences.
\<close>

type_synonym vec = "real list"
type_synonym mat = "real list list"
type_synonym tokens = "real list list list"  \<comment> \<open>shape \<open>[B, T, H]\<close>\<close>

text \<open>The exceptions of the Python code. \<open>KeyError\<close> carries the missing key.\<close>

datatype error =
    ValueError
  | TypeError
  | AttributeError
  | KeyError string
  | IndexError
  | RuntimeError

text \<open>Running a list of computations, stopping at the first exception.\<close>

fun sequence :: "(error + 'a) list \<Rightarrow> error + 'a list" where
  "sequence [] = Inr []"
| "sequence (x # xs) =
     (case x of
        Inl e \<Rightarrow> Inl e
      | Inr v \<Rightarrow> (case sequence xs of Inl e \<Rightarrow> Inl e | Inr vs \<Rightarrow> Inr (v # vs)))"

definition bind :: "error + 'a \<Rightarrow> ('a \<Rightarrow> error + 'b) \<Rightarrow> error + 'b" where
  "bind r f = (case r of Inl e \<Rightarrow> Inl e | Inr v \<Rightarrow> f v)"

section \<open>Linear\<close>

text \<open>
  \<^verbatim>\<open>torch.nn.Linear\<close>: \<open>weight\<close> has one row per output feature. Applying it to
  a vector of the wrong length is the runtime's shape error.
\<close>

record linear =
  in_features :: nat
  weight :: mat
  bias :: vec

definition dot :: "vec \<Rightarrow> vec \<Rightarrow> real" where
  "dot u v = sum_list (map2 (\<lambda>a b. a * b) u v)"

definition Linear_forward :: "linear \<Rightarrow> vec \<Rightarrow> error + vec" where
  "Linear_forward l v =
     (if length v \<noteq> in_features l then Inl RuntimeError
      else Inr (map2 (\<lambda>w b. dot w v + b) (weight l) (bias l)))"

definition Linear_tokens :: "linear \<Rightarrow> tokens \<Rightarrow> error + tokens" where
  "Linear_tokens l x = sequence (map (\<lambda>b. sequence (map (Linear_forward l) b)) x)"

section \<open>Broadcasting\<close>

text \<open>
  The runtime broadcasts a dimension of size 1. \<open>expand n xs\<close> is the in-place form
  (the mask of \<^verbatim>\<open>masked_fill_\<close> is expanded to the tensor it fills);
  \<open>broadcast2\<close> is the form of a binary operation, where either side may be expanded.
  A dimension that fits neither way is the runtime's shape error.
\<close>

definition expand :: "nat \<Rightarrow> 'a list \<Rightarrow> error + 'a list" where
  "expand n xs =
     (if length xs = n then Inr xs
      else if length xs = 1 then Inr (replicate n (hd xs))
      else Inl RuntimeError)"

definition broadcast2 :: "'a list \<Rightarrow> 'b list \<Rightarrow> error + ('a \<times> 'b) list" where
  "broadcast2 xs ys =
     (if length xs = length ys then Inr (zip xs ys)
      else if length xs = 1 then Inr (zip (replicate (length ys) (hd xs)) ys)
      else if length ys = 1 then Inr (zip xs (replicate (length xs) (hd ys)))
      else Inl RuntimeError)"

definition lift_expand ::
  "('a \<Rightarrow> 'b \<Rightarrow> error + 'c) \<Rightarrow> 'a list \<Rightarrow> 'b list \<Rightarrow> error + 'c list" where
  "lift_expand f ms xs = bind (expand (length xs) ms) (\<lambda>ms'. sequence (map2 f ms' xs))"

definition lift_broadcast ::
  "('a \<Rightarrow> 'b \<Rightarrow> error + 'c) \<Rightarrow> 'a list \<Rightarrow> 'b list \<Rightarrow> error + 'c list" where
  "lift_broadcast f ms xs = bind (broadcast2 ms xs) (\<lambda>ps. sequence (map (\<lambda>(m, x). f m x) ps))"

text \<open>The entry that broadcasting reads at index \<open>i\<close>.\<close>

definition bget :: "'a list \<Rightarrow> nat \<Rightarrow> 'a" where
  "bget xs i = (if length xs = 1 then xs ! 0 else xs ! i)"

section \<open>Softmax over scores that may be minus infinity\<close>

text \<open>
  \<^verbatim>\<open>masked_fill_(..., float('-inf'))\<close> puts \<open>-inf\<close> into the scores, so a score is a
  real or \<open>NegInf\<close>, with \<open>exp(-inf) = 0\<close>. A row whose entries are all \<open>-inf\<close> makes the
  runtime's softmax return NaN in the whole row (\<open>0/0\<close>); the model writes such a row
  as \<open>None\<close>. NaN then spreads along the row through every later product and sum.
\<close>

datatype score = Fin real | NegInf

type_synonym probs = "vec option list list list"  \<comment> \<open>shape \<open>[B, heads, T]\<close> of rows\<close>
type_synonym scores = "real list list list list"   \<comment> \<open>shape \<open>[B, heads, T, T]\<close>\<close>
type_synonym mask = "bool list list list list"     \<comment> \<open>shape \<open>[1, heads, n, n]\<close>\<close>

fun exp_score :: "score \<Rightarrow> real" where
  "exp_score (Fin x) = exp x"
| "exp_score NegInf = 0"

definition Softmax :: "score list \<Rightarrow> vec option" where
  "Softmax xs =
     (if xs \<noteq> [] \<and> list_all (\<lambda>x. x = NegInf) xs then None
      else Some (map (\<lambda>x. exp_score x / sum_list (map exp_score xs)) xs))"

section \<open>Attention\<close>

text \<open>
  \<^verbatim>\<open>class Attention(nn.Module)\<close>. The two dropout layers are functions of the record
  (the identity in inference mode). \<open>attention_mask\<close> is read in pruning mode only. The
  statistics tracker \<^verbatim>\<open>record_attn_mean_var\<close> is \<^verbatim>\<open>None\<close> after construction and
  its class is not part of these sources; it receives the probabilities and changes
  nothing the forward call returns, and is left out.
\<close>

record attention =
  vis :: bool
  prune_mode :: bool
  prune_after_softmax :: bool
  num_attention_heads :: nat
  attention_head_size :: nat
  attn_query :: linear
  attn_key :: linear
  attn_value :: linear
  attn_out :: linear
  attn_dropout :: "probs \<Rightarrow> probs"
  proj_dropout :: "vec option list list \<Rightarrow> vec option list list"
  attention_mask :: mask
  record_attention_probs :: bool
  attention_probs :: "probs option"

definition all_head_size :: "attention \<Rightarrow> nat" where
  "all_head_size a = num_attention_heads a * attention_head_size a"

text \<open>
  \<^verbatim>\<open>transpose_for_scores\<close>: the view \<open>[B, T, heads, head_size]\<close> needs every token to
  have \<open>heads * head_size\<close> entries; the permutation puts the heads first.
\<close>

definition transpose_for_scores :: "attention \<Rightarrow> tokens \<Rightarrow> error + real list list list list" where
  "transpose_for_scores a x =
     (if list_all (list_all (\<lambda>tok. length tok = all_head_size a)) x then
        Inr (map (\<lambda>b. map (\<lambda>h. map (\<lambda>tok. take (attention_head_size a)
                                            (drop (h * attention_head_size a) tok)) b)
                        [0..<num_attention_heads a]) x)
      else Inl RuntimeError)"

text \<open>\<^verbatim>\<open>torch.matmul(query_layer, key_layer.transpose(-1, -2))\<close>, on one head and on all.\<close>

definition matmul_qk_head :: "mat \<Rightarrow> mat \<Rightarrow> mat" where
  "matmul_qk_head q k = map (\<lambda>qi. map (\<lambda>kj. dot qi kj) k) q"

definition matmul_qk :: "real list list list list \<Rightarrow> real list list list list \<Rightarrow> scores" where
  "matmul_qk q k = map2 (map2 matmul_qk_head) q k"

definition scale_scores :: "attention \<Rightarrow> scores \<Rightarrow> scores" where
  "scale_scores a s = map (map (map (map (\<lambda>v. v / sqrt (real (attention_head_size a)))))) s"

text \<open>
  \<^verbatim>\<open>attention_scores.masked_fill_(m, float('-inf'))\<close>: the entries where \<open>m\<close> is true
  become \<open>-inf\<close>.
\<close>

definition fill_row :: "bool list \<Rightarrow> vec \<Rightarrow> error + score list" where
  "fill_row m s =
     bind (expand (length s) m) (\<lambda>m'. Inr (map2 (\<lambda>b v. if b then NegInf else Fin v) m' s))"

definition masked_fill :: "mask \<Rightarrow> scores \<Rightarrow> error + score list list list list" where
  "masked_fill m s = lift_expand (lift_expand (lift_expand fill_row)) m s"

definition invert :: "mask \<Rightarrow> mask" where
  "invert m = map (map (map (map Not))) m"

definition to_float :: "bool \<Rightarrow> real" where
  "to_float b = (if b then 1 else 0)"

text \<open>The product \<^verbatim>\<open>m.float() * probs\<close> of a boolean tensor and the probabilities.\<close>

definition mul_row :: "bool list \<Rightarrow> vec option \<Rightarrow> error + vec option" where
  "mul_row m r =
     (case r of
        None \<Rightarrow> Inr None
      | Some p \<Rightarrow> bind (broadcast2 m p) (\<lambda>ps. Inr (Some (map (\<lambda>(b, v). to_float b * v) ps))))"

definition mul_mask :: "mask \<Rightarrow> probs \<Rightarrow> error + probs" where
  "mul_mask m p = lift_broadcast (lift_broadcast (lift_broadcast mul_row)) m p"

definition softmax_rows :: "score list list list list \<Rightarrow> probs" where
  "softmax_rows s = map (map (map Softmax)) s"

definition finite_scores :: "scores \<Rightarrow> score list list list list" where
  "finite_scores s = map (map (map (map Fin))) s"

text \<open>
  Lines 120 to 130 of \<^verbatim>\<open>Attention.forward\<close>: from the scaled scores to
  \<^verbatim>\<open>attention_probs\<close>.
\<close>

definition prune_probs :: "attention \<Rightarrow> scores \<Rightarrow> error + probs" where
  "prune_probs a attention_scores =
     (if prune_mode a then
        (if \<not> prune_after_softmax a then
           bind (masked_fill (invert (attention_mask a)) attention_scores)
                (\<lambda>s. Inr (softmax_rows s))
         else
           mul_mask (invert (attention_mask a)) (softmax_rows (finite_scores attention_scores)))
      else Inr (softmax_rows (finite_scores attention_scores)))"

text \<open>
  \<^verbatim>\<open>torch.matmul(attention_probs, value_layer)\<close> on one head: a NaN row of
  probabilities gives a NaN row of the context; a row of the wrong length is the shape
  error.
\<close>

definition context_row :: "attention \<Rightarrow> mat \<Rightarrow> vec option \<Rightarrow> error + vec option" where
  "context_row a v r =
     (case r of
        None \<Rightarrow> Inr None
      | Some p \<Rightarrow>
          if length p \<noteq> length v then Inl RuntimeError
          else Inr (Some (map (\<lambda>c. sum_list (map2 (\<lambda>pj vj. pj * vj ! c) p v))
                             [0..<attention_head_size a])))"

definition matmul_pv :: "attention \<Rightarrow> probs \<Rightarrow> real list list list list \<Rightarrow> error + probs" where
  "matmul_pv a p v =
     lift_broadcast (lift_broadcast (\<lambda>ph vh. sequence (map (context_row a vh) ph))) p v"

text \<open>
  \<^verbatim>\<open>permute(0, 2, 1, 3)\<close> and the view to \<open>[B, T, all_head_size]\<close>: the token's
  context is the heads' rows one after the other.
\<close>

fun merge_heads :: "vec option list \<Rightarrow> vec option" where
  "merge_heads [] = Some []"
| "merge_heads (None # rs) = None"
| "merge_heads (Some r # rs) = map_option (\<lambda>t. r @ t) (merge_heads rs)"

definition merge_context :: "probs \<Rightarrow> vec option list list" where
  "merge_context c = map (\<lambda>heads. map merge_heads (transpose heads)) c"

definition out_token :: "attention \<Rightarrow> vec option \<Rightarrow> error + vec option" where
  "out_token a t =
     (case t of
        None \<Rightarrow> if all_head_size a \<noteq> in_features (attn_out a) then Inl RuntimeError
                else Inr None
      | Some v \<Rightarrow> map_sum id Some (Linear_forward (attn_out a) v))"

text \<open>
  \<^verbatim>\<open>Attention.forward\<close>. It returns the pair \<^verbatim>\<open>(attention_output, weights)\<close>; the
  model returns with it the module, whose \<open>attention_probs\<close> the call may have set.
  With a head size of 0 the scores are \<open>0/0\<close> and the context has no features, so the
  out projection (on a non-empty hidden dimension) raises the shape error.
\<close>

definition Attention_forward ::
  "attention \<Rightarrow> tokens \<Rightarrow> error + ((vec option list list \<times> probs option) \<times> attention)" where
  "Attention_forward a hidden_states =
     (if attention_head_size a = 0 then Inl RuntimeError else
      bind (Linear_tokens (attn_query a) hidden_states) (\<lambda>mixed_query_layer.
      bind (Linear_tokens (attn_key a) hidden_states) (\<lambda>mixed_key_layer.
      bind (Linear_tokens (attn_value a) hidden_states) (\<lambda>mixed_value_layer.
      bind (transpose_for_scores a mixed_query_layer) (\<lambda>query_layer.
      bind (transpose_for_scores a mixed_key_layer) (\<lambda>key_layer.
      bind (transpose_for_scores a mixed_value_layer) (\<lambda>value_layer.
      bind (prune_probs a (scale_scores a (matmul_qk query_layer key_layer))) (\<lambda>probs.
      let a' = (if record_attention_probs a then a\<lparr>attention_probs := Some probs\<rparr> else a);
          weights = (if vis a then Some probs else None)
      in
      bind (matmul_pv a (attn_dropout a probs) value_layer) (\<lambda>context_layer.
      bind (sequence (map (\<lambda>b. sequence (map (out_token a) b)) (merge_context context_layer)))
        (\<lambda>attention_output.
      Inr ((proj_dropout a attention_output, weights), a')))))))))))"

section \<open>StochasticDepth\<close>

text \<open>
  \<^verbatim>\<open>class StochasticDepth(nn.Module)\<close>. The wrapped module is a value of any type;
  \<open>call\<close> is what calling it computes on a token tensor. The runtime's random generator
  is the sequence of the uniform samples it will deliver: \<open>uniform\<close> takes the next
  one, as \<^verbatim>\<open>self._sampler.uniform_()\<close> does.
\<close>

record 'm stochastic_depth =
  sd_module :: 'm
  sd_p :: real

type_synonym rng = "nat \<Rightarrow> real"

definition uniform :: "rng \<Rightarrow> real \<times> rng" where
  "uniform g = (g 0, \<lambda>n. g (Suc n))"

definition StochasticDepth_init :: "'m \<Rightarrow> real \<Rightarrow> error + 'm stochastic_depth" where
  "StochasticDepth_init m p =
     (if \<not> (0 < p \<and> p < 1) then Inl ValueError
      else Inr \<lparr>sd_module = m, sd_p = p\<rparr>)"

definition scale :: "real \<Rightarrow> tokens \<Rightarrow> tokens" where
  "scale c x = map (map (map (\<lambda>v. v * c))) x"

definition StochasticDepth_forward ::
  "('m \<Rightarrow> tokens \<Rightarrow> tokens) \<Rightarrow> 'm stochastic_depth \<Rightarrow> bool \<Rightarrow> rng \<Rightarrow> tokens
     \<Rightarrow> tokens \<times> rng" where
  "StochasticDepth_forward call sd training g inputs =
     (if training then
        (case uniform g of
           (u, g') \<Rightarrow>
             if u < sd_p sd then (inputs, g')
             else (scale (1 - sd_p sd) (call (sd_module sd) inputs), g'))
      else (call (sd_module sd) inputs, g))"

section \<open>Mlp\<close>

text \<open>
  \<^verbatim>\<open>class Mlp(nn.Module)\<close>. The activation (GELU) and the dropout layer are the
  runtime's and are functions of the record.
\<close>

record mlp =
  fc1 :: linear
  fc2 :: linear
  act_fn :: "real \<Rightarrow> real"
  dropout :: "tokens \<Rightarrow> tokens"

definition Mlp_forward :: "mlp \<Rightarrow> tokens \<Rightarrow> error + tokens" where
  "Mlp_forward m x =
     bind (Linear_tokens (fc1 m) x) (\<lambda>x.
     let x = map (map (map (act_fn m))) x;
         x = dropout m x
     in bind (Linear_tokens (fc2 m) x) (\<lambda>x. Inr (dropout m x)))"

section \<open>Modules of the repository that are not among these sources\<close>

text \<open>
  Modelled from the spec: \<^verbatim>\<open>AttentionActPrune\<close> and \<^verbatim>\<open>MlpActPrune\<close>
  (\<^verbatim>\<open>modeling_new_prune\<close>) and \<^verbatim>\<open>LayerNormSparse\<close>
  (\<^verbatim>\<open>custom_functions.custom_layer_norm\<close>) are imported by the source file and defined
  elsewhere. The spec gives every variant the interface \<open>forward(tokens) -> tokens\<close>
  and the parameter names of the plain variant. An object of such a class is the
  function its forward computes together with its parameters; whether the class has an
  attribute \<^verbatim>\<open>module\<close> is not known, so the object carries the value of that
  attribute when there is one.
\<close>

record attn_params =
  p_query :: linear
  p_key :: linear
  p_value :: linear
  p_out :: linear

record mlp_params =
  p_fc1 :: linear
  p_fc2 :: linear

record act_attention =
  act_attention_forward :: "tokens \<Rightarrow> tokens"
  act_attention_module :: "attn_params option"

record act_mlp =
  act_mlp_forward :: "tokens \<Rightarrow> tokens"
  act_mlp_params :: mlp_params
  act_mlp_module :: "mlp_params option"

text \<open>
  A normalization layer (\<^verbatim>\<open>LayerNorm\<close> of the runtime, or \<^verbatim>\<open>LayerNormSparse\<close>):
  its two parameter vectors and the function it computes from them.
\<close>

record norm =
  norm_weight :: vec
  norm_bias :: vec
  norm_apply :: "vec \<Rightarrow> vec \<Rightarrow> tokens \<Rightarrow> tokens"

definition norm_forward :: "norm \<Rightarrow> tokens \<Rightarrow> tokens" where
  "norm_forward n x = norm_apply n (norm_weight n) (norm_bias n) x"

section \<open>Block\<close>

text \<open>
  \<^verbatim>\<open>Block.__init__\<close> puts into \<^verbatim>\<open>self.attn\<close> an \<^verbatim>\<open>AttentionActPrune\<close>
  or an \<^verbatim>\<open>Attention\<close>, and into \<^verbatim>\<open>self.ffn\<close> a \<^verbatim>\<open>StochasticDepth\<close> around
  an \<^verbatim>\<open>MlpActPrune\<close>, an \<^verbatim>\<open>MlpActPrune\<close> or an \<^verbatim>\<open>Mlp\<close>.
\<close>

datatype attn_module = Attention attention | AttentionActPrune act_attention

datatype ffn_module = Mlp mlp | MlpActPrune act_mlp | StochasticDepth "act_mlp stochastic_depth"

record block =
  hidden_size :: nat
  new_backrazor :: bool
  layer_drop :: bool
  attention_norm :: norm
  ffn_norm :: norm
  ffn :: ffn_module
  attn :: attn_module

text \<open>
  What a call of \<^verbatim>\<open>self.attn\<close> returns: \<^verbatim>\<open>Attention.forward\<close> returns the pair
  \<^verbatim>\<open>(attention_output, weights)\<close>, the pruned variant a tensor.
\<close>

datatype attn_result = Tensor tokens | Tuple "vec option list list" "probs option"

fun call_attn :: "attn_module \<Rightarrow> tokens \<Rightarrow> error + attn_result" where
  "call_attn (Attention a) x =
     (case Attention_forward a x of
        Inl e \<Rightarrow> Inl e
      | Inr ((attention_output, weights), a') \<Rightarrow> Inr (Tuple attention_output weights))"
| "call_attn (AttentionActPrune m) x = Inr (Tensor (act_attention_forward m x))"

fun call_ffn :: "ffn_module \<Rightarrow> bool \<Rightarrow> rng \<Rightarrow> tokens \<Rightarrow> error + tokens \<times> rng" where
  "call_ffn (Mlp m) training g x = map_sum id (\<lambda>y. (y, g)) (Mlp_forward m x)"
| "call_ffn (MlpActPrune m) training g x = Inr (act_mlp_forward m x, g)"
| "call_ffn (StochasticDepth sd) training g x =
     Inr (StochasticDepth_forward act_mlp_forward sd training g x)"

text \<open>The sum of two tensors, with the runtime's broadcasting.\<close>

definition add_vec :: "vec \<Rightarrow> vec \<Rightarrow> error + vec" where
  "add_vec u v = bind (broadcast2 u v) (\<lambda>ps. Inr (map (\<lambda>(a, b). a + b) ps))"

definition add_tokens :: "tokens \<Rightarrow> tokens \<Rightarrow> error + tokens" where
  "add_tokens x h = lift_broadcast (lift_broadcast add_vec) x h"

text \<open>
  \<^verbatim>\<open>x + h\<close> where \<open>x\<close> is what \<^verbatim>\<open>self.attn\<close> returned: a tuple and a tensor
  cannot be added, which Python reports as \<open>TypeError\<close>.
\<close>

fun add_result :: "attn_result \<Rightarrow> tokens \<Rightarrow> error + tokens" where
  "add_result (Tensor x) h = add_tokens x h"
| "add_result (Tuple attention_output weights) h = Inl TypeError"

definition Block_forward :: "block \<Rightarrow> bool \<Rightarrow> rng \<Rightarrow> tokens \<Rightarrow> error + tokens \<times> rng" where
  "Block_forward b training g x =
     (let h = x;
          x = norm_forward (attention_norm b) x
      in bind (call_attn (attn b) x) (\<lambda>x.
         bind (add_result x h) (\<lambda>x.
         let h = x;
             x = norm_forward (ffn_norm b) x
         in bind (call_ffn (ffn b) training g x) (\<lambda>(x, g').
            bind (add_tokens x h) (\<lambda>x. Inr (x, g'))))))"

section \<open>Encoder and Transformer\<close>

record encoder =
  layer :: "block list"
  encoder_norm :: norm

fun run_layers :: "block list \<Rightarrow> bool \<Rightarrow> rng \<Rightarrow> tokens \<Rightarrow> error + tokens \<times> rng" where
  "run_layers [] training g hidden_states = Inr (hidden_states, g)"
| "run_layers (layer_block # rest) training g hidden_states =
     bind (Block_forward layer_block training g hidden_states)
          (\<lambda>(hidden_states, g'). run_layers rest training g' hidden_states)"

definition Encoder_forward :: "encoder \<Rightarrow> bool \<Rightarrow> rng \<Rightarrow> tokens \<Rightarrow> error + tokens \<times> rng" where
  "Encoder_forward e training g hidden_states =
     bind (run_layers (layer e) training g hidden_states)
          (\<lambda>(hidden_states, g'). Inr (norm_forward (encoder_norm e) hidden_states, g'))"



section \<open>The weight bundle\<close>

text \<open>
  A checkpoint maps string keys to numeric arrays. An array is its shape and its entries
  in row-major order, so a reshape or a view changes the shape only. \<^verbatim>\<open>np2th\<close>
  without \<^verbatim>\<open>conv\<close> hands the array over unchanged.
\<close>

record ndarray =
  shape :: "nat list"
  data :: vec

type_synonym weights = "string \<Rightarrow> ndarray option"

definition wf_array :: "ndarray \<Rightarrow> bool" where
  "wf_array a = (length (data a) = prod_list (shape a))"

definition lookup :: "weights \<Rightarrow> string \<Rightarrow> error + ndarray" where
  "lookup w k = (case w k of None \<Rightarrow> Inl (KeyError k) | Some a \<Rightarrow> Inr a)"

text \<open>\<^verbatim>\<open>os.path.join\<close> on POSIX paths.\<close>

definition pjoin2 :: "string \<Rightarrow> string \<Rightarrow> string" where
  "pjoin2 a b =
     (if b \<noteq> [] \<and> hd b = CHR ''/'' then b
      else if a = [] \<or> last a = CHR ''/'' then a @ b
      else a @ ''/'' @ b)"

definition pjoin :: "string \<Rightarrow> string \<Rightarrow> string \<Rightarrow> string" where
  "pjoin a b c = pjoin2 (pjoin2 a b) c"

definition ATTENTION_Q :: string where "ATTENTION_Q = ''MultiHeadDotProductAttention_1/query''"
definition ATTENTION_K :: string where "ATTENTION_K = ''MultiHeadDotProductAttention_1/key''"
definition ATTENTION_V :: string where "ATTENTION_V = ''MultiHeadDotProductAttention_1/value''"
definition ATTENTION_OUT :: string where "ATTENTION_OUT = ''MultiHeadDotProductAttention_1/out''"
definition FC_0 :: string where "FC_0 = ''MlpBlock_3/Dense_0''"
definition FC_1 :: string where "FC_1 = ''MlpBlock_3/Dense_1''"
definition ATTENTION_NORM :: string where "ATTENTION_NORM = ''LayerNorm_0''"
definition MLP_NORM :: string where "MLP_NORM = ''LayerNorm_2''"

text \<open>\<^verbatim>\<open>.view(r, c)\<close>, \<^verbatim>\<open>.view(-1)\<close> and \<^verbatim>\<open>.t()\<close> of the runtime.\<close>

definition view2 :: "nat \<Rightarrow> nat \<Rightarrow> ndarray \<Rightarrow> error + ndarray" where
  "view2 r c a =
     (if prod_list (shape a) = r * c then Inr \<lparr>shape = [r, c], data = data a\<rparr>
      else Inl RuntimeError)"

definition view_flat :: "ndarray \<Rightarrow> ndarray" where
  "view_flat a = \<lparr>shape = [prod_list (shape a)], data = data a\<rparr>"

definition t_data :: "nat \<Rightarrow> nat \<Rightarrow> vec \<Rightarrow> vec" where
  "t_data r c d = concat (map (\<lambda>j. map (\<lambda>i. d ! (i * c + j)) [0..<r]) [0..<c])"

definition tensor_t :: "ndarray \<Rightarrow> error + ndarray" where
  "tensor_t a =
     (case shape a of
        [] \<Rightarrow> Inr a
      | [n] \<Rightarrow> Inr a
      | [r, c] \<Rightarrow> Inr \<lparr>shape = [c, r], data = t_data r c (data a)\<rparr>
      | _ \<Rightarrow> Inl RuntimeError)"

text \<open>
  \<^verbatim>\<open>param.copy_(src)\<close>: the parameter keeps its shape and the source is broadcast
  to it, dimension by dimension from the last one; a source dimension must be the
  parameter's or 1, and the source may have fewer dimensions, not more.
\<close>

definition broadcastable :: "nat list \<Rightarrow> nat list \<Rightarrow> bool" where
  "broadcastable src tgt =
     (length src \<le> length tgt \<and>
      list_all2 (\<lambda>s p. s = p \<or> s = 1) src (drop (length tgt - length src) tgt))"

fun copy_data :: "nat list \<Rightarrow> nat list \<Rightarrow> vec \<Rightarrow> vec" where
  "copy_data src [] d = d"
| "copy_data src (p # ps) d =
     (if length src \<le> length ps then concat (replicate p (copy_data src ps d))
      else
        (let blk = prod_list (tl src) in
         concat (map (\<lambda>i. copy_data (tl src) ps
                            (take blk (drop ((if hd src = 1 then 0 else i) * blk) d)))
                     [0..<p])))"

definition copy_array :: "ndarray \<Rightarrow> ndarray \<Rightarrow> error + ndarray" where
  "copy_array param src =
     (if broadcastable (shape src) (shape param)
      then Inr \<lparr>shape = shape param, data = copy_data (shape src) (shape param) (data src)\<rparr>
      else Inl RuntimeError)"

text \<open>The parameters of a layer are a vector and a matrix; their shapes are read off.\<close>

definition split_rows :: "nat \<Rightarrow> nat \<Rightarrow> vec \<Rightarrow> mat" where
  "split_rows r c d = map (\<lambda>i. take c (drop (i * c) d)) [0..<r]"

definition vec_array :: "vec \<Rightarrow> ndarray" where
  "vec_array v = \<lparr>shape = [length v], data = v\<rparr>"

definition mat_array :: "mat \<Rightarrow> ndarray" where
  "mat_array m =
     \<lparr>shape = [length m, (case m of [] \<Rightarrow> 0 | row # rest \<Rightarrow> length row)], data = concat m\<rparr>"

definition copy_vec :: "vec \<Rightarrow> ndarray \<Rightarrow> error + vec" where
  "copy_vec param src = bind (copy_array (vec_array param) src) (\<lambda>a. Inr (data a))"

definition copy_mat :: "mat \<Rightarrow> ndarray \<Rightarrow> error + mat" where
  "copy_mat param src =
     bind (copy_array (mat_array param) src)
          (\<lambda>a. Inr (split_rows (shape a ! 0) (shape a ! 1) (data a)))"

definition copy_linear_weight :: "linear \<Rightarrow> ndarray \<Rightarrow> error + linear" where
  "copy_linear_weight l src = bind (copy_mat (weight l) src) (\<lambda>m. Inr (l\<lparr>weight := m\<rparr>))"

definition copy_linear_bias :: "linear \<Rightarrow> ndarray \<Rightarrow> error + linear" where
  "copy_linear_bias l src = bind (copy_vec (bias l) src) (\<lambda>v. Inr (l\<lparr>bias := v\<rparr>))"

section \<open>Block.load_from\<close>

text \<open>
  \<^verbatim>\<open>self.attn.module\<close> and \<^verbatim>\<open>self.ffn.module\<close>: a \<^verbatim>\<open>StochasticDepth\<close> has the
  attribute \<^verbatim>\<open>module\<close>; \<^verbatim>\<open>Attention\<close> and \<^verbatim>\<open>Mlp\<close> define no such attribute,
  and reading it raises \<open>AttributeError\<close>.
\<close>

fun attn_module_attr :: "attn_module \<Rightarrow> error + attn_params" where
  "attn_module_attr (Attention a) = Inl AttributeError"
| "attn_module_attr (AttentionActPrune m) =
     (case act_attention_module m of None \<Rightarrow> Inl AttributeError | Some ps \<Rightarrow> Inr ps)"

fun set_attn_module :: "attn_module \<Rightarrow> attn_params \<Rightarrow> attn_module" where
  "set_attn_module (Attention a) ps = Attention a"
| "set_attn_module (AttentionActPrune m) ps =
     AttentionActPrune (m\<lparr>act_attention_module := Some ps\<rparr>)"

fun ffn_module_attr :: "ffn_module \<Rightarrow> error + mlp_params" where
  "ffn_module_attr (Mlp m) = Inl AttributeError"
| "ffn_module_attr (MlpActPrune m) =
     (case act_mlp_module m of None \<Rightarrow> Inl AttributeError | Some ps \<Rightarrow> Inr ps)"
| "ffn_module_attr (StochasticDepth sd) = Inr (act_mlp_params (sd_module sd))"

fun set_ffn_module :: "ffn_module \<Rightarrow> mlp_params \<Rightarrow> ffn_module" where
  "set_ffn_module (Mlp m) ps = Mlp m"
| "set_ffn_module (MlpActPrune m) ps = MlpActPrune (m\<lparr>act_mlp_module := Some ps\<rparr>)"
| "set_ffn_module (StochasticDepth sd) ps =
     StochasticDepth (sd\<lparr>sd_module := (sd_module sd)\<lparr>act_mlp_params := ps\<rparr>\<rparr>)"

definition ROOT :: "string \<Rightarrow> string" where
  "ROOT n_block = ''Transformer/encoderblock_'' @ n_block"

text \<open>
  \<^verbatim>\<open>Block.load_from(weights, n_block)\<close>, statement by statement; \<open>n_block\<close> is the
  text the f-string prints for the index. The result is the block with the copied
  parameters, or the first exception.
\<close>

definition Block_load_from :: "block \<Rightarrow> weights \<Rightarrow> string \<Rightarrow> error + block" where
  "Block_load_from b w n_block =
     (let h = hidden_size b; R = ROOT n_block in
      bind (bind (bind (lookup w (pjoin R ATTENTION_Q ''kernel'')) (view2 h h)) tensor_t) (\<lambda>query_weight.
      bind (bind (bind (lookup w (pjoin R ATTENTION_K ''kernel'')) (view2 h h)) tensor_t) (\<lambda>key_weight.
      bind (bind (bind (lookup w (pjoin R ATTENTION_V ''kernel'')) (view2 h h)) tensor_t) (\<lambda>value_weight.
      bind (bind (bind (lookup w (pjoin R ATTENTION_OUT ''kernel'')) (view2 h h)) tensor_t) (\<lambda>out_weight.
      bind (lookup w (pjoin R ATTENTION_Q ''bias'')) (\<lambda>query_bias.
      bind (lookup w (pjoin R ATTENTION_K ''bias'')) (\<lambda>key_bias.
      bind (lookup w (pjoin R ATTENTION_V ''bias'')) (\<lambda>value_bias.
      bind (lookup w (pjoin R ATTENTION_OUT ''bias'')) (\<lambda>out_bias.
      bind (attn_module_attr (attn b)) (\<lambda>am.
      bind (copy_linear_weight (p_query am) query_weight) (\<lambda>q.
      bind (copy_linear_weight (p_key am) key_weight) (\<lambda>k.
      bind (copy_linear_weight (p_value am) value_weight) (\<lambda>v.
      bind (copy_linear_weight (p_out am) out_weight) (\<lambda>ou.
      bind (copy_linear_bias q (view_flat query_bias)) (\<lambda>q.
      bind (copy_linear_bias k (view_flat key_bias)) (\<lambda>k.
      bind (copy_linear_bias v (view_flat value_bias)) (\<lambda>v.
      bind (copy_linear_bias ou (view_flat out_bias)) (\<lambda>ou.
      let b = b\<lparr>attn := set_attn_module (attn b)
                  \<lparr>p_query = q, p_key = k, p_value = v, p_out = ou\<rparr>\<rparr> in
      bind (bind (lookup w (pjoin R FC_0 ''kernel'')) tensor_t) (\<lambda>mlp_weight_0.
      bind (bind (lookup w (pjoin R FC_1 ''kernel'')) tensor_t) (\<lambda>mlp_weight_1.
      bind (bind (lookup w (pjoin R FC_0 ''bias'')) tensor_t) (\<lambda>mlp_bias_0.
      bind (bind (lookup w (pjoin R FC_1 ''bias'')) tensor_t) (\<lambda>mlp_bias_1.
      bind (ffn_module_attr (ffn b)) (\<lambda>fm.
      bind (copy_linear_weight (p_fc1 fm) mlp_weight_0) (\<lambda>f1.
      bind (copy_linear_weight (p_fc2 fm) mlp_weight_1) (\<lambda>f2.
      bind (copy_linear_bias f1 mlp_bias_0) (\<lambda>f1.
      bind (copy_linear_bias f2 mlp_bias_1) (\<lambda>f2.
      let b = b\<lparr>ffn := set_ffn_module (ffn b) \<lparr>p_fc1 = f1, p_fc2 = f2\<rparr>\<rparr> in
      bind (bind (lookup w (pjoin R ATTENTION_NORM ''scale'')) (copy_vec (norm_weight (attention_norm b)))) (\<lambda>an_w.
      bind (bind (lookup w (pjoin R ATTENTION_NORM ''bias'')) (copy_vec (norm_bias (attention_norm b)))) (\<lambda>an_b.
      bind (bind (lookup w (pjoin R MLP_NORM ''scale'')) (copy_vec (norm_weight (ffn_norm b)))) (\<lambda>fn_w.
      bind (bind (lookup w (pjoin R MLP_NORM ''bias'')) (copy_vec (norm_bias (ffn_norm b)))) (\<lambda>fn_b.
      Inr (b\<lparr>attention_norm := (attention_norm b)\<lparr>norm_weight := an_w, norm_bias := an_b\<rparr>,
              ffn_norm := (ffn_norm b)\<lparr>norm_weight := fn_w, norm_bias := fn_b\<rparr>\<rparr>
          ))))))))))))))))))))))))))))))))"

section \<open>Transformer and VisionTransformer\<close>

text \<open>
  \<^verbatim>\<open>class Transformer\<close>. The embedding module (patch convolution, class token,
  dropout) is the function it computes from its positional-embedding table and an image
  batch; it raises the shape error on an image of the wrong size. The table has the
  shape \<open>[1, n_patches + 1, hidden_size]\<close>.
\<close>

record 'img transformer =
  position_embeddings :: ndarray
  embeddings :: "ndarray \<Rightarrow> 'img \<Rightarrow> error + tokens"
  encoder :: encoder

definition Transformer_forward ::
  "'img transformer \<Rightarrow> bool \<Rightarrow> rng \<Rightarrow> 'img \<Rightarrow> error + tokens \<times> rng" where
  "Transformer_forward tr training g input_ids =
     bind (embeddings tr (position_embeddings tr) input_ids) (\<lambda>embedding_output.
       Encoder_forward (encoder tr) training g embedding_output)"

text \<open>
  \<^verbatim>\<open>class VisionTransformer\<close>. \<^verbatim>\<open>CrossEntropyLoss\<close> is the runtime's: a function
  from the logits and the labels to a scalar, which raises on labels it cannot use.
\<close>

record 'img vision_transformer =
  num_classes :: nat
  zero_head :: bool
  classifier :: string
  transformer :: "'img transformer"
  head :: linear
  loss_fct :: "mat \<Rightarrow> int list \<Rightarrow> error + real"

datatype vit_output = Features tokens | Logits mat | Loss real

text \<open>\<^verbatim>\<open>x[:, 0]\<close>: the first token of every sequence of the batch.\<close>

definition select_first :: "tokens \<Rightarrow> error + mat" where
  "select_first x =
     sequence (map (\<lambda>b. case b of [] \<Rightarrow> Inl IndexError | tok # rest \<Rightarrow> Inr tok) x)"

text \<open>\<^verbatim>\<open>logits.view(-1, num_classes)\<close>.\<close>

definition view_rows :: "nat \<Rightarrow> mat \<Rightarrow> error + mat" where
  "view_rows n m =
     (let d = concat m in
      if n = 0 \<or> length d mod n \<noteq> 0 then Inl RuntimeError
      else Inr (split_rows (length d div n) n d))"

definition VisionTransformer_forward ::
  "'img vision_transformer \<Rightarrow> bool \<Rightarrow> rng \<Rightarrow> 'img \<Rightarrow> int list option \<Rightarrow> bool
     \<Rightarrow> error + vit_output \<times> rng" where
  "VisionTransformer_forward m training g x labels return_encoded_feature =
     bind (Transformer_forward (transformer m) training g x) (\<lambda>(x, g').
       if return_encoded_feature then Inr (Features x, g')
       else
         bind (bind (select_first x) (\<lambda>c. sequence (map (Linear_forward (head m)) c)))
           (\<lambda>logits.
              case labels of
                Some l \<Rightarrow>
                  bind (view_rows (num_classes m) logits) (\<lambda>lv.
                  bind (loss_fct m lv l) (\<lambda>loss. Inr (Loss loss, g')))
              | None \<Rightarrow> Inr (Logits logits, g')))"

section \<open>VisionTransformer.load_from\<close>

text \<open>
  The import writes the model's parameters in place, statement by statement, so what an
  earlier statement wrote stays written when a later one raises. The two parts of
  \<^verbatim>\<open>load_from\<close> modelled here are the head (lines 374 to 379) and the positional
  embedding (lines 387 to 410); each is a function from the model to the model after
  that part, or to the exception the part raises.
\<close>

definition zeros_mat :: "mat \<Rightarrow> mat" where
  "zeros_mat m = map (map (\<lambda>v. 0)) m"

definition zeros_vec :: "vec \<Rightarrow> vec" where
  "zeros_vec v = map (\<lambda>v. 0) v"

definition load_from_head ::
  "'img vision_transformer \<Rightarrow> weights \<Rightarrow> error + 'img vision_transformer" where
  "load_from_head m w =
     (if zero_head m then
        Inr (m\<lparr>head := (head m)\<lparr>weight := zeros_mat (weight (head m)),
                               bias := zeros_vec (bias (head m))\<rparr>\<rparr>)
      else
        bind (bind (bind (lookup w ''head/kernel'') tensor_t) (copy_linear_weight (head m)))
          (\<lambda>hd1.
        bind (bind (bind (lookup w ''head/bias'') tensor_t) (copy_linear_bias hd1))
          (\<lambda>hd2. Inr (m\<lparr>head := hd2\<rparr>))))"

text \<open>
  \<^verbatim>\<open>int(np.sqrt(n))\<close>, and the two slices of the checkpoint's table \<^verbatim>\<open>posemb\<close>:
  the token part \<^verbatim>\<open>posemb[:, :k]\<close> and the grid part \<^verbatim>\<open>posemb[0, k:]\<close>, for
  \<open>k = 1\<close> with the classifier \<open>token\<close> and \<open>k = 0\<close> otherwise. A table of fewer
  than two dimensions has too many indices (\<open>IndexError\<close>), and so has the index 0
  into an empty first dimension. The table is \<open>[d0, d1, h]\<close> in a checkpoint; the
  slices of a table of any other number of dimensions keep its further dimensions.
\<close>

definition int_sqrt :: "nat \<Rightarrow> nat" where
  "int_sqrt n = nat \<lfloor>sqrt (real n)\<rfloor>"

definition slice_tok :: "nat \<Rightarrow> ndarray \<Rightarrow> error + ndarray" where
  "slice_tok k a =
     (case shape a of
        d0 # d1 # rest \<Rightarrow>
          let h = prod_list rest in
          Inr \<lparr>shape = d0 # min k d1 # rest,
               data = concat (map (\<lambda>i. take (min k d1 * h) (drop (i * d1 * h) (data a)))
                                  [0..<d0])\<rparr>
      | _ \<Rightarrow> Inl IndexError)"

definition slice_grid :: "nat \<Rightarrow> ndarray \<Rightarrow> error + ndarray" where
  "slice_grid k a =
     (case shape a of
        d0 # d1 # rest \<Rightarrow>
          let h = prod_list rest in
          if d0 = 0 then Inl IndexError
          else Inr \<lparr>shape = (d1 - min k d1) # rest,
                    data = drop (min k d1 * h) (take (d1 * h) (data a))\<rparr>
      | _ \<Rightarrow> Inl IndexError)"

text \<open>
  \<^verbatim>\<open>reshape(r, c, -1)\<close>: the last dimension is what is left of the entries, which must
  divide evenly; with no entries to divide it is ambiguous. The runtime's reshape raises
  \<open>RuntimeError\<close>, NumPy's \<open>ValueError\<close>.
\<close>

definition reshape3 :: "error \<Rightarrow> nat \<Rightarrow> nat \<Rightarrow> ndarray \<Rightarrow> error + ndarray" where
  "reshape3 err r c a =
     (let n = prod_list (shape a) in
      if r * c = 0 \<or> n mod (r * c) \<noteq> 0 then Inl err
      else Inr \<lparr>shape = [r, c, n div (r * c)], data = data a\<rparr>)"

text \<open>\<^verbatim>\<open>np.concatenate([a, b], axis=1)\<close> of two 3-dimensional arrays.\<close>

definition concatenate1 :: "ndarray \<Rightarrow> ndarray \<Rightarrow> error + ndarray" where
  "concatenate1 a b =
     (case (shape a, shape b) of
        ([a0, a1, a2], [b0, b1, b2]) \<Rightarrow>
          if a0 = b0 \<and> a2 = b2 then
            Inr \<lparr>shape = [a0, a1 + b1, a2],
                 data = concat (map (\<lambda>i. take (a1 * a2) (drop (i * a1 * a2) (data a)) @
                                          take (b1 * b2) (drop (i * b1 * b2) (data b)))
                                    [0..<a0])\<rparr>
          else Inl ValueError
      | _ \<Rightarrow> Inl ValueError)"

text \<open>
  Lines 387 to 410. \<^verbatim>\<open>ndimage.zoom\<close> is SciPy's and is a parameter: the function of
  an array and the zoom factors that \<^verbatim>\<open>zoom(..., order=1)\<close> computes. The model's
  table is 3-dimensional; \<^verbatim>\<open>int\<close> of the square root of a negative count is
  \<open>ValueError\<close> (the root is NaN).
\<close>

definition load_from_posemb ::
  "(ndarray \<Rightarrow> real list \<Rightarrow> ndarray) \<Rightarrow> 'img vision_transformer \<Rightarrow> weights
     \<Rightarrow> error + 'img vision_transformer" where
  "load_from_posemb zoom m w =
     bind (lookup w ''Transformer/posembed_input/pos_embedding'') (\<lambda>posemb.
     let posemb_new = position_embeddings (transformer m);
         store = (\<lambda>a. m\<lparr>transformer := (transformer m)\<lparr>position_embeddings := a\<rparr>\<rparr>)
     in
     if shape posemb = shape posemb_new then
       bind (copy_array posemb_new posemb) (\<lambda>a. Inr (store a))
     else
       let ntok_new = int (shape posemb_new ! 1);
           k = (if classifier m = ''token'' then 1 else 0);
           ntok_new = ntok_new - int k
       in
       bind (slice_tok k posemb) (\<lambda>posemb_tok.
       bind (slice_grid k posemb) (\<lambda>posemb_grid.
       if ntok_new < 0 then Inl ValueError else
       let gs_old = int_sqrt (hd (shape posemb_grid));
           gs_new = int_sqrt (nat ntok_new)
       in
       bind (reshape3 RuntimeError gs_old gs_old posemb_grid) (\<lambda>posemb_grid.
       let posemb_grid =
             zoom posemb_grid [real gs_new / real gs_old, real gs_new / real gs_old, 1]
       in
       bind (reshape3 ValueError 1 (gs_new * gs_new) posemb_grid) (\<lambda>posemb_grid.
       bind (concatenate1 posemb_tok posemb_grid) (\<lambda>posemb.
       bind (copy_array posemb_new posemb) (\<lambda>a. Inr (store a))))))))"

section \<open>Shapes\<close>

text \<open>A token tensor of shape \<open>[B, T, H]\<close>.\<close>

definition has_shape :: "tokens \<Rightarrow> nat \<Rightarrow> nat \<Rightarrow> nat \<Rightarrow> bool" where
  "has_shape x B T H =
     (length x = B \<and> list_all (\<lambda>b. length b = T \<and> list_all (\<lambda>tok. length tok = H) b) x)"

text \<open>
  What the import needs of SciPy's \<^verbatim>\<open>zoom\<close>: on a square grid of side \<open>r\<close> with
  \<open>k\<close> channels and the factors \<open>(n/r, n/r, 1)\<close> it returns an array of shape
  \<open>[n, n, k]\<close> (SciPy rounds each dimension times its factor).
\<close>

definition zoom_resizes :: "(ndarray \<Rightarrow> real list \<Rightarrow> ndarray) \<Rightarrow> bool" where
  "zoom_resizes zoom =
     (\<forall>r k n d. 0 < r \<and> length d = r * r * k \<longrightarrow>
        shape (zoom \<lparr>shape = [r, r, k], data = d\<rparr> [real n / real r, real n / real r, 1])
          = [n, n, k] \<and>
        wf_array (zoom \<lparr>shape = [r, r, k], data = d\<rparr> [real n / real r, real n / real r, 1]))"

section \<open>The mask entry of a position\<close>

text \<open>
  The mask has the shape \<open>[1, heads, n, n]\<close>; \<open>mask_at m b h i j\<close> is the entry that
  the runtime reads for the score at batch \<open>b\<close>, head \<open>h\<close>, query \<open>i\<close> and key \<open>j\<close>.
\<close>

definition mask_at :: "mask \<Rightarrow> nat \<Rightarrow> nat \<Rightarrow> nat \<Rightarrow> nat \<Rightarrow> bool" where
  "mask_at m b h i j = bget (bget (bget (bget m b) h) i) j"

section \<open>Small concrete modules\<close>

text \<open>
  The runtime's \<^verbatim>\<open>LayerNorm\<close> over the last dimension, with the variance of the
  whole token (not the sample variance).
\<close>

definition LayerNorm :: "real \<Rightarrow> vec \<Rightarrow> vec \<Rightarrow> tokens \<Rightarrow> tokens" where
  "LayerNorm eps w b x =
     map (map (\<lambda>v.
       let n = real (length v);
           mu = sum_list v / n;
           var = sum_list (map (\<lambda>e. (e - mu)\<^sup>2) v) / n
       in map2 (\<lambda>e (wi, bi). (e - mu) / sqrt (var + eps) * wi + bi) v (zip w b))) x"

text \<open>
  A model of hidden size 1 with one head, and one block's entries of a checkpoint for
  it, under the keys the import reads.
\<close>

definition linear1 :: "real \<Rightarrow> linear" where
  "linear1 c = \<lparr>in_features = 1, weight = [[c]], bias = [0]\<rparr>"

definition attention1 :: "bool \<Rightarrow> bool \<Rightarrow> mask \<Rightarrow> attention" where
  "attention1 pm pas msk =
     \<lparr>vis = False, prune_mode = pm, prune_after_softmax = pas,
      num_attention_heads = 1, attention_head_size = 1,
      attn_query = linear1 0, attn_key = linear1 0, attn_value = linear1 1, attn_out = linear1 1,
      attn_dropout = (\<lambda>p. p), proj_dropout = (\<lambda>y. y),
      attention_mask = msk, record_attention_probs = False, attention_probs = None\<rparr>"

definition norm1 :: norm where
  "norm1 = \<lparr>norm_weight = [1], norm_bias = [0], norm_apply = LayerNorm (1 / 10 ^ 6)\<rparr>"

definition block1 :: block where
  "block1 =
     \<lparr>hidden_size = 1, new_backrazor = False, layer_drop = False,
      attention_norm = norm1, ffn_norm = norm1,
      ffn = Mlp \<lparr>fc1 = linear1 1, fc2 = linear1 1, act_fn = (\<lambda>v. v), dropout = (\<lambda>y. y)\<rparr>,
      attn = Attention (attention1 False False [[[[True]]]])\<rparr>"

definition weights1 :: weights where
  "weights1 = map_of
     [(''Transformer/encoderblock_0/MultiHeadDotProductAttention_1/query/kernel'', \<lparr>shape = [1, 1, 1], data = [2]\<rparr>),
      (''Transformer/encoderblock_0/MultiHeadDotProductAttention_1/key/kernel'', \<lparr>shape = [1, 1, 1], data = [2]\<rparr>),
      (''Transformer/encoderblock_0/MultiHeadDotProductAttention_1/value/kernel'', \<lparr>shape = [1, 1, 1], data = [2]\<rparr>),
      (''Transformer/encoderblock_0/MultiHeadDotProductAttention_1/out/kernel'', \<lparr>shape = [1, 1, 1], data = [2]\<rparr>),
      (''Transformer/encoderblock_0/MultiHeadDotProductAttention_1/query/bias'', \<lparr>shape = [1, 1], data = [3]\<rparr>),
      (''Transformer/encoderblock_0/MultiHeadDotProductAttention_1/key/bias'', \<lparr>shape = [1, 1], data = [3]\<rparr>),
      (''Transformer/encoderblock_0/MultiHeadDotProductAttention_1/value/bias'', \<lparr>shape = [1, 1], data = [3]\<rparr>),
      (''Transformer/encoderblock_0/MultiHeadDotProductAttention_1/out/bias'', \<lparr>shape = [1], data = [3]\<rparr>),
      (''Transformer/encoderblock_0/MlpBlock_3/Dense_0/kernel'', \<lparr>shape = [1, 1], data = [4]\<rparr>),
      (''Transformer/encoderblock_0/MlpBlock_3/Dense_1/kernel'', \<lparr>shape = [1, 1], data = [4]\<rparr>),
      (''Transformer/encoderblock_0/MlpBlock_3/Dense_0/bias'', \<lparr>shape = [1], data = [5]\<rparr>),
      (''Transformer/encoderblock_0/MlpBlock_3/Dense_1/bias'', \<lparr>shape = [1], data = [5]\<rparr>),
      (''Transformer/encoderblock_0/LayerNorm_0/scale'', \<lparr>shape = [1], data = [6]\<rparr>),
      (''Transformer/encoderblock_0/LayerNorm_0/bias'', \<lparr>shape = [1], data = [7]\<rparr>),
      (''Transformer/encoderblock_0/LayerNorm_2/scale'', \<lparr>shape = [1], data = [6]\<rparr>),
      (''Transformer/encoderblock_0/LayerNorm_2/bias'', \<lparr>shape = [1], data = [7]\<rparr>)]"

text \<open>
  Order-1 interpolation for the examples, on the coordinates SciPy's \<^verbatim>\<open>zoom\<close> uses:
  the output has each dimension times its factor, rounded; output index \<open>i\<close> of a
  dimension reads the input at \<open>i * (n_in - 1) / (n_out - 1)\<close>, between the two
  neighbouring entries in proportion.
\<close>

definition zoom_coord :: "nat \<Rightarrow> nat \<Rightarrow> nat \<Rightarrow> real" where
  "zoom_coord n_in n_out i =
     (if n_out \<le> 1 then real i else real i * real (n_in - 1) / real (n_out - 1))"

definition interp1 :: "(nat \<Rightarrow> real) \<Rightarrow> nat \<Rightarrow> real \<Rightarrow> real" where
  "interp1 f n x =
     (let i0 = nat \<lfloor>x\<rfloor>;
          fr = x - real i0;
          i1 = min (i0 + 1) (n - 1)
      in (1 - fr) * f i0 + fr * f i1)"

definition zoom_order1 :: "ndarray \<Rightarrow> real list \<Rightarrow> ndarray" where
  "zoom_order1 a fs =
     (case shape a of
        [r, c, k] \<Rightarrow>
          let n0 = nat (round (real r * fs ! 0));
              n1 = nat (round (real c * fs ! 1));
              n2 = nat (round (real k * fs ! 2))
          in \<lparr>shape = [n0, n1, n2],
              data = map (\<lambda>ix.
                       interp1 (\<lambda>p.
                         interp1 (\<lambda>q.
                           interp1 (\<lambda>s. data a ! ((p * c + q) * k + s))
                             k (zoom_coord k n2 (ix mod n2)))
                           c (zoom_coord c n1 (ix div n2 mod n1)))
                         r (zoom_coord r n0 (ix div (n1 * n2))))
                     [0..<n0 * n1 * n2]\<rparr>
      | _ \<Rightarrow> a)"

text \<open>
  A loss for the examples: the mean over the batch of \<open>-log softmax(row)[label]\<close>, for
  labels that index the row.
\<close>

definition cross_entropy :: "mat \<Rightarrow> int list \<Rightarrow> error + real" where
  "cross_entropy L l =
     (if length L \<noteq> length l then Inl ValueError
      else if list_ex (\<lambda>(row, y). y < 0 \<or> int (length row) \<le> y) (zip L l) then Inl IndexError
      else Inr (sum_list (map2 (\<lambda>row y. ln (sum_list (map exp row)) - row ! nat y) L l)
                / real (length L)))"

text \<open>
  A model with one pruned block, a head for two classes and a table for a 2 by 2 grid,
  and a checkpoint with a head and a table for a 1 by 1 grid.
\<close>

definition block2 :: block where
  "block2 =
     \<lparr>hidden_size = 1, new_backrazor = True, layer_drop = False,
      attention_norm = norm1, ffn_norm = norm1,
      ffn = MlpActPrune \<lparr>act_mlp_forward = scale 2,
                         act_mlp_params = \<lparr>p_fc1 = linear1 1, p_fc2 = linear1 1\<rparr>,
                         act_mlp_module = None\<rparr>,
      attn = AttentionActPrune \<lparr>act_attention_forward = scale 3, act_attention_module = None\<rparr>\<rparr>"

definition model1 :: "tokens vision_transformer" where
  "model1 =
     \<lparr>num_classes = 2, zero_head = False, classifier = ''token'',
      transformer =
        \<lparr>position_embeddings = \<lparr>shape = [1, 5, 1], data = [0, 0, 0, 0, 0]\<rparr>,
         embeddings = (\<lambda>pe x. Inr x),
         encoder = \<lparr>layer = [block2],
                    encoder_norm = \<lparr>norm_weight = [1], norm_bias = [5],
                                    norm_apply = LayerNorm (1 / 10 ^ 6)\<rparr>\<rparr>\<rparr>,
      head = \<lparr>in_features = 1, weight = [[1], [2]], bias = [3, 4]\<rparr>,
      loss_fct = cross_entropy\<rparr>"

definition weights2 :: weights where
  "weights2 = map_of
     [(''Transformer/posembed_input/pos_embedding'', \<lparr>shape = [1, 2, 1], data = [7, 9]\<rparr>),
      (''head/kernel'', \<lparr>shape = [1, 2], data = [10, 20]\<rparr>),
      (''head/bias'', \<lparr>shape = [2], data = [30, 40]\<rparr>)]"

text \<open>
  The same model with a table for two spatial rows (not a square), with a table for a
  3 by 3 grid, and with the block that \<^verbatim>\<open>Block.__init__\<close> builds by default; and a
  checkpoint with a table for a 2 by 2 grid.
\<close>

definition model2 :: "tokens vision_transformer" where
  "model2 = model1\<lparr>transformer := (transformer model1)
              \<lparr>position_embeddings := \<lparr>shape = [1, 3, 1], data = [0, 0, 0]\<rparr>\<rparr>\<rparr>"

definition model3 :: "tokens vision_transformer" where
  "model3 = model1\<lparr>transformer := (transformer model1)
              \<lparr>position_embeddings :=
                 \<lparr>shape = [1, 10, 1], data = [0, 0, 0, 0, 0, 0, 0, 0, 0, 0]\<rparr>\<rparr>\<rparr>"

definition model4 :: "tokens vision_transformer" where
  "model4 = model1\<lparr>transformer := (transformer model1)
              \<lparr>encoder := \<lparr>layer = [block1], encoder_norm = norm1\<rparr>\<rparr>\<rparr>"

definition weights3 :: weights where
  "weights3 = map_of
     [(''Transformer/posembed_input/pos_embedding'',
       \<lparr>shape = [1, 5, 1], data = [7, 0, 1, 2, 3]\<rparr>)]"

section \<open>Results of the error-passing combinators\<close>

lemma bind_Inr: "bind r f = Inr y \<Longrightarrow> \<exists>v. r = Inr v \<and> f v = Inr y"
  by (cases r) (simp_all add: bind_def)

lemma sequence_Inr:
  "sequence xs = Inr vs \<Longrightarrow> length vs = length xs \<and> (\<forall>i<length xs. xs ! i = Inr (vs ! i))"
proof (induction xs arbitrary: vs)
  case Nil
  then show ?case by simp
next
  case (Cons x xs)
  from Cons.prems obtain v ws where x: "x = Inr v" and ws: "sequence xs = Inr ws" and vs: "vs = v # ws"
    by (auto split: sum.splits)
  from Cons.IH[OF ws] have "length ws = length xs" and nth: "\<forall>i<length xs. xs ! i = Inr (ws ! i)"
    by simp_all
  then show ?case using x vs by (auto simp: nth_Cons split: nat.splits)
qed

lemma expand_Inr:
  "expand n xs = Inr ys \<Longrightarrow>
     length ys = n \<and> (length xs = n \<or> length xs = 1) \<and> (\<forall>i<n. ys ! i = bget xs i)"
  by (cases xs) (auto simp: expand_def bget_def split: if_splits)

lemma lift_expand_Inr:
  assumes "lift_expand f ms xs = Inr rs"
  shows "length rs = length xs \<and> (length ms = length xs \<or> length ms = 1) \<and>
         (\<forall>i<length xs. f (bget ms i) (xs ! i) = Inr (rs ! i))"
proof -
  from assms obtain ms' where e: "expand (length xs) ms = Inr ms'"
    and s: "sequence (map2 f ms' xs) = Inr rs"
    unfolding lift_expand_def by (auto dest: bind_Inr)
  from expand_Inr[OF e] have l: "length ms' = length xs"
    and d: "length ms = length xs \<or> length ms = 1"
    and g: "\<forall>i<length xs. ms' ! i = bget ms i" by simp_all
  from sequence_Inr[OF s] l have "length rs = length xs"
    and "\<forall>i<length xs. map2 f ms' xs ! i = Inr (rs ! i)" by simp_all
  with l g d show ?thesis by simp
qed

lemma bget_map: "length xs = 1 \<or> i < length xs \<Longrightarrow> bget (map f xs) i = f (bget xs i)"
  by (auto simp: bget_def)

lemma fill_row_Inr:
  assumes "fill_row m s = Inr r"
  shows "length r = length s \<and> (length m = length s \<or> length m = 1) \<and>
         (\<forall>j<length s. r ! j = (if bget m j then NegInf else Fin (s ! j)))"
proof -
  from assms obtain m' where e: "expand (length s) m = Inr m'"
    and r: "r = map2 (\<lambda>b v. if b then NegInf else Fin v) m' s"
    unfolding fill_row_def by (auto dest: bind_Inr)
  from expand_Inr[OF e] r show ?thesis by simp
qed

lemma sum_list_div: "sum_list (map (\<lambda>x. f x / (c::real)) xs) = sum_list (map f xs) / c"
  by (induction xs) (simp_all add: add_divide_distrib)

lemma exp_score_nonneg: "0 \<le> exp_score x"
  by (cases x) simp_all

lemma sum_exp_score_pos:
  assumes "j < length r" "r ! j \<noteq> NegInf"
  shows "0 < sum_list (map exp_score r)"
proof -
  have "exp_score (r ! j) \<le> sum_list (map exp_score r)"
    using assms(1) by (intro member_le_sum_list) (auto simp: exp_score_nonneg)
  moreover have "0 < exp_score (r ! j)" using assms(2) by (cases "r ! j") simp_all
  ultimately show ?thesis by linarith
qed

lemma Softmax_Some:
  assumes "j < length r" "r ! j \<noteq> NegInf"
  shows "\<exists>p. Softmax r = Some p \<and> length p = length r \<and>
             (\<forall>k<length r. r ! k = NegInf \<longrightarrow> p ! k = 0) \<and> sum_list p = 1"
proof -
  have ne: "\<not> list_all (\<lambda>x. x = NegInf) r"
    using assms by (auto simp: list_all_length)
  have pos: "0 < sum_list (map exp_score r)" by (rule sum_exp_score_pos[OF assms])
  let ?p = "map (\<lambda>x. exp_score x / sum_list (map exp_score r)) r"
  have "Softmax r = Some ?p" using ne by (simp add: Softmax_def)
  moreover have "sum_list ?p = 1" using pos by (simp add: sum_list_div)
  moreover have "\<forall>k<length r. r ! k = NegInf \<longrightarrow> ?p ! k = 0" by simp
  ultimately show ?thesis by simp
qed

lemma sum_unmasked:
  fixes p :: "real list"
  assumes "\<forall>j<length p. \<not> M j \<longrightarrow> p ! j = 0"
  shows "(\<Sum>j | j < length p \<and> M j. p ! j) = sum_list p"
proof -
  have "sum_list p = (\<Sum>j = 0..<length p. p ! j)" by (rule sum_list_sum_nth)
  also have "\<dots> = (\<Sum>j \<in> {j. j < length p \<and> M j}. p ! j)"
    using assms by (intro sum.mono_neutral_right) auto
  finally show ?thesis by simp
qed

section \<open>Properties of Attention\<close>

lemmas attention_defs =
  attention1_def linear1_def Attention_forward_def Linear_tokens_def Linear_forward_def
  bind_def dot_def transpose_for_scores_def all_head_size_def matmul_qk_def
  matmul_qk_head_def scale_scores_def prune_probs_def softmax_rows_def finite_scores_def
  Softmax_def matmul_pv_def lift_broadcast_def broadcast2_def context_row_def
  merge_context_def out_token_def mul_mask_def mul_row_def invert_def to_float_def
  masked_fill_def lift_expand_def expand_def fill_row_def

text \<open>
  C1. The claim: in post-softmax mode every entry at a masked position (mask false) is 0
  and every entry at an unmasked position (mask true) is the entry of the softmax over
  the unmasked scores. The code multiplies by the negated mask, \<^verbatim>\<open>(~mask).float()\<close>,
  so it does the opposite. With the scores all 0 and the mask row \<open>[True, False]\<close> the
  softmax row is \<open>[1/2, 1/2]\<close>; the code returns \<open>[0, 1/2]\<close>: 0 at the unmasked
  position and the softmax value at the masked one.
\<close>

theorem post_softmax_zeroes_unmasked:
  "prune_probs (attention1 True True [[[[True, False], [True, True]]]]) [[[[0, 0], [0, 0]]]]
     = Inr [[[Some [0, 1/2], Some [0, 0]]]] \<and>
   softmax_rows (finite_scores [[[[0, 0], [0, 0]]]]) = [[[Some [1/2, 1/2], Some [1/2, 1/2]]]]"
  by (simp add: attention_defs)

text \<open>
  C2. The claim: with pruning enabled and an all-true mask, in either mode, the forward
  call returns what it returns with pruning disabled. In post-softmax mode the all-true
  mask, which is the mask the constructor builds, zeroes every probability: on the
  input \<open>[[[1]]]\<close> the pruned module returns \<open>[[[0]]]\<close> and the plain one \<open>[[[1]]]\<close>.
  In pre-softmax mode the pruned module returns \<open>[[[1]]]\<close> there, as the plain one.
\<close>

theorem post_softmax_all_true_differs:
  "map_sum id fst (Attention_forward (attention1 True True [[[[True]]]]) [[[1]]])
     = Inr ([[Some [0]]], None) \<and>
   map_sum id fst (Attention_forward (attention1 False False [[[[True]]]]) [[[1]]])
     = Inr ([[Some [1]]], None) \<and>
   map_sum id fst (Attention_forward (attention1 True False [[[[True]]]]) [[[1]]])
     = Inr ([[Some [1]]], None)"
  by (simp add: attention_defs)

text \<open>
  C3. In pre-softmax mode, when the mask could be applied to the scores: for every row
  (batch \<open>b\<close>, head \<open>h\<close>, query \<open>i\<close>) whose mask row has an unmasked position, the row
  of probabilities is a row of numbers, each entry at a masked position is 0, and the
  entries at the unmasked positions sum to 1.
\<close>

theorem pre_softmax_masking:
  assumes mode: "prune_mode a" "\<not> prune_after_softmax a"
      and ok: "prune_probs a s = Inr P"
      and idx: "b < length s" "h < length (s ! b)" "i < length (s ! b ! h)"
      and some: "\<exists>j<length (s ! b ! h ! i). mask_at (attention_mask a) b h i j"
  shows "\<exists>p. P ! b ! h ! i = Some p \<and> length p = length (s ! b ! h ! i) \<and>
             (\<forall>j<length p. \<not> mask_at (attention_mask a) b h i j \<longrightarrow> p ! j = 0) \<and>
             (\<Sum>j | j < length p \<and> mask_at (attention_mask a) b h i j. p ! j) = 1"
proof -
  let ?m = "attention_mask a"
  from ok mode obtain f where f: "masked_fill (invert ?m) s = Inr f" and P: "P = softmax_rows f"
    unfolding prune_probs_def by (auto dest: bind_Inr)
  from lift_expand_Inr[OF f[unfolded masked_fill_def]] idx(1)
  have l0: "length f = length s" and d0: "length (invert ?m) = length s \<or> length (invert ?m) = 1"
    and f0: "lift_expand (lift_expand fill_row) (bget (invert ?m) b) (s ! b) = Inr (f ! b)"
    by simp_all
  from lift_expand_Inr[OF f0] idx(2)
  have l1: "length (f ! b) = length (s ! b)"
    and d1: "length (bget (invert ?m) b) = length (s ! b) \<or> length (bget (invert ?m) b) = 1"
    and f1: "lift_expand fill_row (bget (bget (invert ?m) b) h) (s ! b ! h) = Inr (f ! b ! h)"
    by simp_all
  from lift_expand_Inr[OF f1] idx(3)
  have l2: "length (f ! b ! h) = length (s ! b ! h)"
    and d2: "length (bget (bget (invert ?m) b) h) = length (s ! b ! h)
               \<or> length (bget (bget (invert ?m) b) h) = 1"
    and f2: "fill_row (bget (bget (bget (invert ?m) b) h) i) (s ! b ! h ! i) = Inr (f ! b ! h ! i)"
    by simp_all
  let ?row = "f ! b ! h ! i" and ?srow = "s ! b ! h ! i"
  let ?mr = "bget (bget (bget (invert ?m) b) h) i"
  from fill_row_Inr[OF f2]
  have l3: "length ?row = length ?srow"
    and d3: "length ?mr = length ?srow \<or> length ?mr = 1"
    and f3: "\<forall>j<length ?srow. ?row ! j = (if bget ?mr j then NegInf else Fin (?srow ! j))"
    by simp_all
  have b0: "bget (invert ?m) b = map (map (map Not)) (bget ?m b)"
    using d0 idx(1) unfolding invert_def by (intro bget_map) auto
  have b1: "bget (bget (invert ?m) b) h = map (map Not) (bget (bget ?m b) h)"
    using d1 idx(2) unfolding b0 by (intro bget_map) auto
  have b2: "?mr = map Not (bget (bget (bget ?m b) h) i)"
    using d2 idx(3) unfolding b1 by (intro bget_map) auto
  have b3: "\<forall>j<length ?srow. bget ?mr j = (\<not> mask_at ?m b h i j)"
  proof (intro allI impI)
    fix j assume "j < length ?srow"
    with d3 have "bget ?mr j = (\<not> bget (bget (bget (bget ?m b) h) i) j)"
      unfolding b2 by (intro bget_map) auto
    then show "bget ?mr j = (\<not> mask_at ?m b h i j)" by (simp add: mask_at_def)
  qed
  from some obtain j where j: "j < length ?srow" "mask_at ?m b h i j" by blast
  with f3 b3 l3 have "j < length ?row" "?row ! j \<noteq> NegInf" by simp_all
  from Softmax_Some[OF this] obtain p where p: "Softmax ?row = Some p" "length p = length ?row"
    "\<forall>k<length ?row. ?row ! k = NegInf \<longrightarrow> p ! k = 0" "sum_list p = 1" by blast
  have Pp: "P ! b ! h ! i = Some p"
    using P p(1) idx l0 l1 l2 by (simp add: softmax_rows_def)
  have z: "\<forall>k<length p. \<not> mask_at ?m b h i k \<longrightarrow> p ! k = 0"
    using p(2,3) f3 b3 l3 by simp
  from sum_unmasked[OF z] p(4)
  have "(\<Sum>k | k < length p \<and> mask_at ?m b h i k. p ! k) = 1" by simp
  with Pp z p(2) l3 show ?thesis by simp
qed


theorem pre_softmax_masking_witness:
  "prune_probs (attention1 True False [[[[True, False], [False, False]]]]) [[[[0, 0], [0, 0]]]]
     = Inr [[[Some [1, 0], None]]] \<and>
   (\<exists>p :: real list. [[[Some [1, 0], None]]] ! 0 ! 0 ! 0 = Some p \<and>
        length p = length ([[[[0, 0], [0, 0]]]] ! 0 ! 0 ! 0 :: real list) \<and>
        (\<forall>j<length p.
           \<not> mask_at (attention_mask (attention1 True False [[[[True, False], [False, False]]]]))
               0 0 0 j \<longrightarrow> p ! j = 0) \<and>
        (\<Sum>j | j < length p \<and>
               mask_at (attention_mask (attention1 True False [[[[True, False], [False, False]]]]))
                 0 0 0 j. p ! j) = 1)"
proof -
  let ?a = "attention1 True False [[[[True, False], [False, False]]]]"
  let ?s = "[[[[0, 0], [0, 0]]]] :: scores"
  have mode: "prune_mode ?a" "\<not> prune_after_softmax ?a"
    by (simp_all add: attention1_def)
  have ok: "prune_probs ?a ?s = Inr [[[Some [1, 0], None]]]"
    by (simp add: attention_defs)
  have idx: "0 < length ?s" "0 < length (?s ! 0)" "0 < length (?s ! 0 ! 0)"
    by simp_all
  have "mask_at (attention_mask ?a) 0 0 0 0"
    by (simp add: attention1_def mask_at_def bget_def)
  then have some: "\<exists>j<length (?s ! 0 ! 0 ! 0). mask_at (attention_mask ?a) 0 0 0 j"
    by (intro exI[of _ 0]) simp
  show ?thesis
    using ok pre_softmax_masking[OF mode ok idx some] by blast
qed

section \<open>Properties of Block\<close>

text \<open>
  C4. The claim: for every configuration \<^verbatim>\<open>Block.forward\<close> returns
  \<open>mlp(norm_ffn(y)) + y\<close> with \<open>y = attn(norm_attn(x)) + x\<close>. For the block built
  without \<^verbatim>\<open>new_backrazor\<close> the attention module is \<^verbatim>\<open>Attention\<close>, whose
  forward returns the pair \<^verbatim>\<open>(attention_output, weights)\<close>; \<^verbatim>\<open>x + h\<close> then adds
  a tuple and a tensor, and the call raises \<open>TypeError\<close>.
\<close>

theorem Block_forward_plain_raises:
  "Block_forward block1 False g [[[1]]] = Inl TypeError"
  by (simp add: Block_forward_def block1_def norm1_def norm_forward_def LayerNorm_def
      attention_defs)

lemma Block_forward_Attention_never_returns:
  "attn b = Attention a \<Longrightarrow> Block_forward b training g x \<noteq> Inr r"
  by (auto simp: Block_forward_def bind_def Let_def split: sum.splits prod.splits)

text \<open>
  With the pruned modules, which return a tensor, the same function computes the two
  residual steps in order.
\<close>

lemma Block_forward_pruned:
  assumes "attn b = AttentionActPrune m" "ffn b = MlpActPrune f"
  shows "Block_forward b training g x =
           bind (add_tokens (act_attention_forward m (norm_forward (attention_norm b) x)) x)
             (\<lambda>y. bind (add_tokens (act_mlp_forward f (norm_forward (ffn_norm b) y)) y)
                (\<lambda>z. Inr (z, g)))"
  using assms by (simp add: Block_forward_def bind_def Let_def split: sum.splits)

text \<open>
  C5. The claim: for every block variant and every bundle with the expected keys,
  \<^verbatim>\<open>Block.load_from\<close> copies the sixteen arrays into the block's parameters. For the
  plain block, \<^verbatim>\<open>self.attn.module\<close> raises \<open>AttributeError\<close> after the lookups:
  \<^verbatim>\<open>Attention\<close> has no attribute \<^verbatim>\<open>module\<close>, and nothing is copied.
\<close>

theorem Block_load_from_plain_raises:
  "Block_load_from block1 weights1 ''0'' = Inl AttributeError"
  by (simp add: Block_load_from_def block1_def weights1_def ROOT_def pjoin_def pjoin2_def
      lookup_def ATTENTION_Q_def ATTENTION_K_def ATTENTION_V_def ATTENTION_OUT_def
      view2_def tensor_t_def bind_def t_data_def)

lemma Block_load_from_Attention_never_returns:
  "attn b = Attention a \<Longrightarrow> Block_load_from b w n \<noteq> Inr r"
  by (auto simp: Block_load_from_def bind_def Let_def split: sum.splits)

section \<open>Copying arrays into parameters\<close>

lemma take_chunks:
  "p * blk \<le> length d \<Longrightarrow>
     concat (map (\<lambda>i. take blk (drop (i * blk) d)) [0..<p]) = take (p * blk) d"
proof (induction p)
  case 0
  then show ?case by simp
next
  case (Suc p)
  then have IH: "concat (map (\<lambda>i. take blk (drop (i * blk) d)) [0..<p]) = take (p * blk) d"
    by simp
  have e: "Suc p * blk = p * blk + blk" by simp
  show ?case unfolding e using IH by (simp add: take_add)
qed

lemma concat_chunks:
  "length d = p * blk \<Longrightarrow> concat (map (\<lambda>i. take blk (drop (i * blk) d)) [0..<p]) = d"
  using take_chunks[of p blk d] by simp

lemma copy_data_same: "length d = prod_list s \<Longrightarrow> copy_data s s d = d"
proof (induction s arbitrary: d)
  case Nil
  then show ?case by simp
next
  case (Cons p ps)
  let ?blk = "prod_list ps"
  have len: "length d = p * ?blk" using Cons.prems by simp
  have m: "map (\<lambda>i. copy_data ps ps (take ?blk (drop ((if p = 1 then 0 else i) * ?blk) d))) [0..<p]
        = map (\<lambda>i. take ?blk (drop (i * ?blk) d)) [0..<p]"
  proof (rule map_cong[OF refl])
    fix i assume "i \<in> set [0..<p]"
    then have i: "i < p" by simp
    then have idx: "(if p = 1 then 0 else i) = i" by auto
    have "(i + 1) * ?blk \<le> p * ?blk" using i by (intro mult_le_mono1) simp
    then have "length (take ?blk (drop (i * ?blk) d)) = ?blk" using len by simp
    from Cons.IH[OF this] idx
    show "copy_data ps ps (take ?blk (drop ((if p = 1 then 0 else i) * ?blk) d))
          = take ?blk (drop (i * ?blk) d)" by simp
  qed
  have "copy_data (p # ps) (p # ps) d
        = concat (map (\<lambda>i. copy_data ps ps
                                (take ?blk (drop ((if p = 1 then 0 else i) * ?blk) d))) [0..<p])"
    by (simp add: Let_def)
  also have "\<dots> = concat (map (\<lambda>i. take ?blk (drop (i * ?blk) d)) [0..<p])"
    by (simp only: m)
  also have "\<dots> = d" by (rule concat_chunks[OF len])
  finally show ?case .
qed

lemma broadcastable_same: "broadcastable s s"
  by (simp add: broadcastable_def list_all2_same)

lemma copy_array_same:
  "shape src = shape param \<Longrightarrow> wf_array src \<Longrightarrow>
     copy_array param src = Inr \<lparr>shape = shape param, data = data src\<rparr>"
  by (simp add: copy_array_def broadcastable_same copy_data_same wf_array_def)

lemma concat_blocks:
  "list_all (\<lambda>x. length x = r) xs \<Longrightarrow> i < length xs \<Longrightarrow>
     take r (drop (i * r) (concat xs)) = xs ! i"
proof (induction xs arbitrary: i)
  case Nil
  then show ?case by simp
next
  case (Cons x xs)
  show ?case
  proof (cases i)
    case 0
    with Cons.prems show ?thesis by simp
  next
    case (Suc k)
    with Cons.prems Cons.IH[of k] show ?thesis by (simp add: add.commute)
  qed
qed

lemma length_concat_blocks:
  "list_all (\<lambda>x. length x = r) xs \<Longrightarrow> length (concat xs) = length xs * r"
  by (induction xs) simp_all

lemma split_rows_concat:
  "list_all (\<lambda>x. length x = r) xs \<Longrightarrow> split_rows (length xs) r (concat xs) = xs"
  by (rule nth_equalityI) (simp_all add: split_rows_def concat_blocks)

lemma int_sqrt_square: "int_sqrt (g * g) = g"
  by (simp add: int_sqrt_def)

lemma sq_inj: "(g::nat) * g = g' * g' \<Longrightarrow> g = g'"
proof (rule ccontr)
  assume eq: "g * g = g' * g'" and "g \<noteq> g'"
  then consider "g < g'" | "g' < g" by linarith
  then show False
  proof cases
    case 1
    then have "g * g < g' * g'" by (intro mult_strict_mono) simp_all
    with eq show False by simp
  next
    case 2
    then have "g' * g' < g * g" by (intro mult_strict_mono) simp_all
    with eq show False by simp
  qed
qed

lemma length_t_data: "length (t_data r c d) = c * r"
proof -
  have "list_all (\<lambda>x. length x = r) (map (\<lambda>j. map (\<lambda>i. d ! (i * c + j)) [0..<r]) [0..<c])"
    by (simp add: list_all_iff)
  from length_concat_blocks[OF this] show ?thesis by (simp add: t_data_def)
qed

lemma split_rows_t_data:
  "split_rows n h (t_data h n d) = map (\<lambda>i. map (\<lambda>j. d ! (j * n + i)) [0..<h]) [0..<n]"
proof -
  let ?xs = "map (\<lambda>i. map (\<lambda>j. d ! (j * n + i)) [0..<h]) [0..<n]"
  have "list_all (\<lambda>x. length x = h) ?xs" by (simp add: list_all_iff)
  from split_rows_concat[OF this] show ?thesis by (simp add: t_data_def)
qed

lemma mat_array_shape:
  "0 < length m \<Longrightarrow> list_all (\<lambda>row. length row = h) m \<Longrightarrow> shape (mat_array m) = [length m, h]"
  by (cases m) (simp_all add: mat_array_def)

lemma copy_mat_same:
  assumes "0 < length m" "list_all (\<lambda>row. length row = h) m"
    and "shape src = [length m, h]" "wf_array src"
  shows "copy_mat m src = Inr (split_rows (length m) h (data src))"
proof -
  have "shape src = shape (mat_array m)" using assms by (simp add: mat_array_shape)
  from copy_array_same[OF this assms(4)] mat_array_shape[OF assms(1,2)]
  show ?thesis by (simp add: copy_mat_def bind_def)
qed

lemma copy_vec_same:
  assumes "shape src = [length v]" "wf_array src"
  shows "copy_vec v src = Inr (data src)"
proof -
  have "shape src = shape (vec_array v)" using assms by (simp add: vec_array_def)
  from copy_array_same[OF this assms(2)] show ?thesis by (simp add: copy_vec_def bind_def)
qed

lemma int_sqrt_square_int: "int_sqrt (nat (int g * int g)) = g"
proof -
  have "nat (int g * int g) = g * g" by (simp add: nat_mult_distrib)
  then show ?thesis by (simp add: int_sqrt_square)
qed

lemma sequence_map_Inr:
  "list_all (\<lambda>x. f x = Inr (g x)) xs \<Longrightarrow> sequence (map f xs) = Inr (map g xs)"
  by (induction xs) simp_all

lemma zoom_order1_resizes: "zoom_resizes zoom_order1"
  by (simp add: zoom_resizes_def zoom_order1_def wf_array_def)

lemma int_sqrt_unique:
  assumes "g * g \<le> n" "n < (g + 1) * (g + 1)"
  shows "int_sqrt n = g"
proof -
  have "(real g)\<^sup>2 \<le> real n" using assms(1) by (simp add: power2_eq_square flip: of_nat_mult)
  then have lo: "real g \<le> sqrt (real n)" by (rule real_le_rsqrt)
  have "real n < real ((g + 1) * (g + 1))" using assms(2) by (simp only: of_nat_less_iff)
  also have "\<dots> = (real g + 1)\<^sup>2" by (simp add: power2_eq_square algebra_simps)
  finally have hi: "sqrt (real n) < real g + 1" by (intro real_less_lsqrt) simp_all
  have "\<lfloor>sqrt (real n)\<rfloor> = int g" using lo hi by (intro floor_unique) simp_all
  then show ?thesis by (simp add: int_sqrt_def)
qed

lemma upt9: "[0..<9] = [0, 1, 2, 3, 4, 5, 6, 7, 8]"
  by code_simp

lemma zoom_ramp:
  "data (zoom_order1 \<lparr>shape = [2, 2, 1], data = [0, 1, 2, 3]\<rparr> [real 3 / real 2, real 3 / real 2, 1])
     = [0, 1/2, 1, 1, 3/2, 2, 2, 5/2, 3]"
  by (simp add: zoom_order1_def upt9 interp1_def zoom_coord_def Let_def)


section \<open>Properties of VisionTransformer.forward\<close>

text \<open>
  C9. The claim: for every image batch the forward call returns the encoded sequence
  (feature flag), the scalar loss (labels) or the logits (neither). A model built by
  default has blocks with the plain \<^verbatim>\<open>Attention\<close>, whose forward returns a pair, so
  the first block raises \<open>TypeError\<close> and the forward call raises it in all three
  modes.
\<close>

theorem VisionTransformer_forward_plain_raises:
  "VisionTransformer_forward model4 False g [[[1]]] None True = Inl TypeError \<and>
   VisionTransformer_forward model4 False g [[[1]]] None False = Inl TypeError \<and>
   VisionTransformer_forward model4 False g [[[1]]] (Some [1]) False = Inl TypeError"
proof -
  have "Transformer_forward (transformer model4) False g [[[1]]] = Inl TypeError"
    by (simp add: model4_def model1_def Transformer_forward_def Encoder_forward_def
        Block_forward_def block1_def norm1_def norm_forward_def LayerNorm_def attention_defs)
  then show ?thesis by (simp add: VisionTransformer_forward_def bind_def)
qed

lemma VisionTransformer_forward_Attention_never_returns:
  assumes "layer (encoder (transformer m)) = b # bs" "attn b = Attention a"
  shows "VisionTransformer_forward m training g x labels flag \<noteq> Inr r"
proof -
  have "run_layers (b # bs) training g' y \<noteq> Inr r'" for g' y r'
    using Block_forward_Attention_never_returns[OF assms(2)]
    by (cases "Block_forward b training g' y") (simp_all add: bind_def)
  then have "Transformer_forward (transformer m) training g x \<noteq> Inr r'" for r'
    using assms(1)
    by (auto simp: Transformer_forward_def Encoder_forward_def bind_def split: sum.splits)
  then obtain e where "Transformer_forward (transformer m) training g x = Inl e"
    by (cases "Transformer_forward (transformer m) training g x") auto
  then show ?thesis by (simp add: VisionTransformer_forward_def bind_def)
qed

text \<open>
  Once the transformer returns an encoded sequence of shape \<open>[B, T, H]\<close>, the three
  modes are as described: with the feature flag set, the forward call returns that
  sequence, whatever the labels; with the flag unset and no labels it returns the
  logits, of shape \<open>[B, num_classes]\<close>, each row the head applied to the token at
  position 0; with labels it returns the scalar that the loss computes from these
  logits and the labels.
\<close>

theorem VisionTransformer_forward_modes:
  assumes tr: "Transformer_forward (transformer m) training g x = Inr (enc, g')"
    and sh: "has_shape enc B T H" "0 < T" "in_features (head m) = H"
    and hd: "length (weight (head m)) = num_classes m" "length (bias (head m)) = num_classes m"
            "0 < num_classes m"
  shows "VisionTransformer_forward m training g x labels True = Inr (Features enc, g') \<and>
         (\<exists>logits.
            VisionTransformer_forward m training g x None False = Inr (Logits logits, g') \<and>
            VisionTransformer_forward m training g x (Some l) False
              = bind (loss_fct m logits l) (\<lambda>loss. Inr (Loss loss, g')) \<and>
            length logits = B \<and>
            list_all (\<lambda>row. length row = num_classes m) logits \<and>
            map Inr logits = map (\<lambda>b. Linear_forward (head m) (b ! 0)) enc)"
proof -
  let ?lin = "\<lambda>v. map2 (\<lambda>w b. dot w v + b) (weight (head m)) (bias (head m))"
  let ?logits = "map (\<lambda>b. ?lin (b ! 0)) enc"
  have each: "list_all (\<lambda>b. length b = T \<and> list_all (\<lambda>tok. length tok = H) b) enc"
    and B: "length enc = B" using sh(1) by (simp_all add: has_shape_def)
  have first: "list_all (\<lambda>b. (case b of [] \<Rightarrow> Inl IndexError | tok # rest \<Rightarrow> Inr tok)
                              = Inr (b ! 0)) enc"
    using each sh(2) by (auto simp: list_all_iff split: list.splits)
  have sf: "select_first enc = Inr (map (\<lambda>b. b ! 0) enc)"
    unfolding select_first_def by (rule sequence_map_Inr[OF first])
  have lenH: "list_all (\<lambda>b. length (b ! 0) = H) enc"
    using each sh(2) by (auto simp: list_all_iff)
  have lf: "list_all (\<lambda>b. Linear_forward (head m) (b ! 0) = Inr (?lin (b ! 0))) enc"
    using lenH sh(3) by (auto simp: list_all_iff Linear_forward_def)
  have "list_all (\<lambda>v. Linear_forward (head m) v = Inr (?lin v)) (map (\<lambda>b. b ! 0) enc)"
    using lf by (simp add: list_all_iff)
  from sequence_map_Inr[OF this]
  have lg: "sequence (map (Linear_forward (head m)) (map (\<lambda>b. b ! 0) enc)) = Inr ?logits"
    by (simp add: comp_def)
  have rows: "list_all (\<lambda>row. length row = num_classes m) ?logits"
    using hd by (simp add: list_all_iff)
  have lc: "length (concat ?logits) = B * num_classes m"
    using length_concat_blocks[OF rows] B by simp
  have vr: "view_rows (num_classes m) ?logits = Inr ?logits"
    using split_rows_concat[OF rows] lc hd(3) B by (simp add: view_rows_def Let_def)
  have f1: "VisionTransformer_forward m training g x labels True = Inr (Features enc, g')"
    using tr by (simp add: VisionTransformer_forward_def bind_def)
  have f2: "VisionTransformer_forward m training g x None False = Inr (Logits ?logits, g')"
    using tr sf lg by (simp add: VisionTransformer_forward_def bind_def)
  have f3: "VisionTransformer_forward m training g x (Some l) False
              = bind (loss_fct m ?logits l) (\<lambda>loss. Inr (Loss loss, g'))"
    using tr sf lg vr by (simp add: VisionTransformer_forward_def bind_def)
  have f4: "map Inr ?logits = map (\<lambda>b. Linear_forward (head m) (b ! 0)) enc"
    using lf by (simp add: list_all_iff)
  from f1 f2 f3 f4 rows B show ?thesis by (intro conjI exI[of _ ?logits]) simp_all
qed

lemma Transformer_forward_model1:
  "Transformer_forward (transformer model1) False g [[[1]]] = Inr ([[[5]]], g)"
  by (simp add: model1_def Transformer_forward_def Encoder_forward_def Block_forward_def
      block2_def norm1_def norm_forward_def LayerNorm_def scale_def add_tokens_def add_vec_def
      lift_broadcast_def broadcast2_def bind_def)

theorem VisionTransformer_forward_modes_witness:
  "VisionTransformer_forward model1 False (\<lambda>n. 0) [[[1]]] None True
     = Inr (Features [[[5]]], \<lambda>n. 0) \<and>
   VisionTransformer_forward model1 False (\<lambda>n. 0) [[[1]]] None False
     = Inr (Logits [[8, 14]], \<lambda>n. 0) \<and>
   VisionTransformer_forward model1 False (\<lambda>n. 0) [[[1]]] (Some [1]) False
     = Inr (Loss (ln (exp 8 + exp 14) - 14), \<lambda>n. 0)"
proof -
  have sh: "has_shape [[[5]]] 1 1 1" by (simp add: has_shape_def)
  have hd: "in_features (head model1) = 1" "length (weight (head model1)) = num_classes model1"
    "length (bias (head model1)) = num_classes model1" "0 < num_classes model1"
    by (simp_all add: model1_def)
  from VisionTransformer_forward_modes
         [OF Transformer_forward_model1 sh _ hd, of "\<lambda>n. 0" None "[1]"]
  obtain logits where l:
    "VisionTransformer_forward model1 False (\<lambda>n. 0) [[[1]]] None True
       = Inr (Features [[[5]]], \<lambda>n. 0)"
    "VisionTransformer_forward model1 False (\<lambda>n. 0) [[[1]]] None False
       = Inr (Logits logits, \<lambda>n. 0)"
    "VisionTransformer_forward model1 False (\<lambda>n. 0) [[[1]]] (Some [1]) False
       = bind (loss_fct model1 logits [1]) (\<lambda>loss. Inr (Loss loss, \<lambda>n. 0))"
    "map Inr logits = map (\<lambda>b. Linear_forward (head model1) (b ! 0)) [[[5]]]"
    by auto
  from l(4) have "logits = [[8, 14]]"
    by (auto simp: model1_def Linear_forward_def dot_def)
  with l show ?thesis
    by (simp add: model1_def cross_entropy_def bind_def)
qed

section \<open>Properties of VisionTransformer.load_from\<close>

text \<open>
  C10. With \<open>zero_head\<close> the import sets the head's weight and bias to zeros, whatever
  the checkpoint holds, also when it holds no head entry. Otherwise, with a kernel of
  shape \<open>[h, n]\<close> and a bias of shape \<open>[n]\<close> for a head of \<open>n\<close> outputs and \<open>h\<close>
  inputs, the head's weight becomes the transposed kernel (entry \<open>i, j\<close> of the weight
  is entry \<open>j, i\<close> of the kernel) and its bias the checkpoint's bias.
\<close>

theorem load_from_head_spec:
  "(zero_head m \<longrightarrow>
      load_from_head m w
        = Inr (m\<lparr>head := (head m)\<lparr>weight := zeros_mat (weight (head m)),
                                   bias := zeros_vec (bias (head m))\<rparr>\<rparr>)) \<and>
   (\<not> zero_head m \<and> w ''head/kernel'' = Some k \<and> w ''head/bias'' = Some bs \<and>
    wf_array k \<and> shape k = [h, n] \<and> wf_array bs \<and> shape bs = [n] \<and> 0 < n \<and>
    length (weight (head m)) = n \<and> list_all (\<lambda>row. length row = h) (weight (head m)) \<and>
    length (bias (head m)) = n \<longrightarrow>
      load_from_head m w
        = Inr (m\<lparr>head := (head m)
                 \<lparr>weight := map (\<lambda>i. map (\<lambda>j. data k ! (j * n + i)) [0..<h]) [0..<n],
                  bias := data bs\<rparr>\<rparr>))"
proof (intro conjI impI)
  assume "zero_head m"
  then show "load_from_head m w
        = Inr (m\<lparr>head := (head m)\<lparr>weight := zeros_mat (weight (head m)),
                                   bias := zeros_vec (bias (head m))\<rparr>\<rparr>)"
    by (simp add: load_from_head_def)
next
  assume a: "\<not> zero_head m \<and> w ''head/kernel'' = Some k \<and> w ''head/bias'' = Some bs \<and>
    wf_array k \<and> shape k = [h, n] \<and> wf_array bs \<and> shape bs = [n] \<and> 0 < n \<and>
    length (weight (head m)) = n \<and> list_all (\<lambda>row. length row = h) (weight (head m)) \<and>
    length (bias (head m)) = n"
  let ?kt = "\<lparr>shape = [n, h], data = t_data h n (data k)\<rparr>"
  have t1: "tensor_t k = Inr ?kt" using a by (simp add: tensor_t_def)
  have wf: "wf_array ?kt" by (simp add: wf_array_def length_t_data)
  have c1: "copy_mat (weight (head m)) ?kt = Inr (split_rows n h (t_data h n (data k)))"
    using copy_mat_same[of "weight (head m)" h ?kt] a wf by simp
  have t2: "tensor_t bs = Inr bs" using a by (simp add: tensor_t_def)
  have c2: "copy_vec (bias (head m)) bs = Inr (data bs)"
    using copy_vec_same[of bs "bias (head m)"] a by simp
  show "load_from_head m w
        = Inr (m\<lparr>head := (head m)
                 \<lparr>weight := map (\<lambda>i. map (\<lambda>j. data k ! (j * n + i)) [0..<h]) [0..<n],
                  bias := data bs\<rparr>\<rparr>)"
    using a t1 c1 t2 c2
    by (simp add: load_from_head_def lookup_def bind_def copy_linear_weight_def
        copy_linear_bias_def split_rows_t_data)
qed

theorem load_from_head_spec_witness:
  "load_from_head (model1\<lparr>zero_head := True\<rparr>) (\<lambda>k. None)
     = Inr (model1\<lparr>zero_head := True,
                   head := \<lparr>in_features = 1, weight = [[0], [0]], bias = [0, 0]\<rparr>\<rparr>) \<and>
   load_from_head model1 weights2
     = Inr (model1\<lparr>head := \<lparr>in_features = 1, weight = [[10], [20]], bias = [30, 40]\<rparr>\<rparr>)"
proof -
  have z: "zero_head (model1\<lparr>zero_head := True\<rparr>)" by simp
  have c: "\<not> zero_head model1 \<and>
      weights2 ''head/kernel'' = Some \<lparr>shape = [1, 2], data = [10, 20]\<rparr> \<and>
      weights2 ''head/bias'' = Some \<lparr>shape = [2], data = [30, 40]\<rparr> \<and>
      wf_array \<lparr>shape = [1, 2], data = [10, 20]\<rparr> \<and>
      shape \<lparr>shape = [1, 2], data = [10, 20]\<rparr> = [1, 2] \<and>
      wf_array \<lparr>shape = [2], data = [30, 40]\<rparr> \<and>
      shape \<lparr>shape = [2], data = [30, 40]\<rparr> = [2] \<and> (0::nat) < 2 \<and>
      length (weight (head model1)) = 2 \<and>
      list_all (\<lambda>row. length row = 1) (weight (head model1)) \<and>
      length (bias (head model1)) = 2"
    by (simp add: model1_def weights2_def wf_array_def)
  have u: "map (\<lambda>i. map (\<lambda>j. [10, 20 :: real] ! (j * 2 + i)) [0..<1]) [0..<2] = [[10], [20]]"
    by (simp add: numeral_2_eq_2)
  from load_from_head_spec[of "model1\<lparr>zero_head := True\<rparr>" "\<lambda>k. None"] z
  have a: "load_from_head (model1\<lparr>zero_head := True\<rparr>) (\<lambda>k. None)
     = Inr (model1\<lparr>zero_head := True,
                   head := \<lparr>in_features = 1, weight = [[0], [0]], bias = [0, 0]\<rparr>\<rparr>)"
    by (simp add: model1_def zeros_mat_def zeros_vec_def)
  from load_from_head_spec[of model1 weights2 "\<lparr>shape = [1, 2], data = [10, 20]\<rparr>"
         "\<lparr>shape = [2], data = [30, 40]\<rparr>" 1 2] c u
  have b: "load_from_head model1 weights2
     = Inr (model1\<lparr>head := \<lparr>in_features = 1, weight = [[10], [20]], bias = [30, 40]\<rparr>\<rparr>)"
    by (simp add: model1_def)
  from a b show ?thesis by simp
qed

text \<open>
  The import on square grids: a checkpoint table for a \<open>g\<close> by \<open>g\<close> grid, a model
  table for a \<open>g'\<close> by \<open>g'\<close> grid.
\<close>

lemma load_from_posemb_square:
  assumes tok: "classifier m = ''token''"
    and key: "w ''Transformer/posembed_input/pos_embedding'' = Some posemb"
    and old: "shape posemb = [1, g * g + 1, h]" "wf_array posemb"
    and new: "shape (position_embeddings (transformer m)) = [1, g' * g' + 1, h]"
    and diff: "g \<noteq> g'" and pos: "0 < g" "0 < g'" "0 < h"
    and zoom: "zoom_resizes zoom"
  shows "\<exists>a. load_from_posemb zoom m w
               = Inr (m\<lparr>transformer := (transformer m)\<lparr>position_embeddings := a\<rparr>\<rparr>) \<and>
             shape a = shape (position_embeddings (transformer m)) \<and>
             take h (data a) = take h (data posemb) \<and>
             drop h (data a)
               = data (zoom \<lparr>shape = [g, g, h], data = drop h (data posemb)\<rparr>
                            [real g' / real g, real g' / real g, 1])"
proof -
  let ?grid = "\<lparr>shape = [g, g, h], data = drop h (data posemb)\<rparr>"
  let ?z = "zoom ?grid [real g' / real g, real g' / real g, 1]"
  let ?pe = "position_embeddings (transformer m)"
  have len: "length (data posemb) = (g * g + 1) * h"
    using old by (simp add: wf_array_def)
  then have lend: "length (drop h (data posemb)) = g * g * h" by simp
  from zoom pos(1) lend have zs: "shape ?z = [g', g', h]" and zw: "wf_array ?z"
    unfolding zoom_resizes_def by blast+
  then have zl: "length (data ?z) = g' * g' * h" by (simp add: wf_array_def)
  have ne: "shape posemb \<noteq> shape ?pe"
    using old new diff sq_inj[of g g'] by auto
  have st: "slice_tok 1 posemb = Inr \<lparr>shape = [1, 1, h], data = take h (data posemb)\<rparr>"
    using old by (simp add: slice_tok_def)
  have sg: "slice_grid 1 posemb = Inr \<lparr>shape = [g * g, h], data = drop h (data posemb)\<rparr>"
    using old len by (simp add: slice_grid_def)
  have r1: "reshape3 RuntimeError g g \<lparr>shape = [g * g, h], data = drop h (data posemb)\<rparr>
              = Inr ?grid"
    using pos by (simp add: reshape3_def)
  have r2: "reshape3 ValueError 1 (g' * g') ?z
              = Inr \<lparr>shape = [1, g' * g', h], data = data ?z\<rparr>"
    using pos zs by (simp add: reshape3_def)
  let ?cat = "\<lparr>shape = [1, 1 + g' * g', h], data = take h (data posemb) @ data ?z\<rparr>"
  have cc: "concatenate1 \<lparr>shape = [1, 1, h], data = take h (data posemb)\<rparr>
              \<lparr>shape = [1, g' * g', h], data = data ?z\<rparr> = Inr ?cat"
    using zl by (simp add: concatenate1_def)
  have lt: "length (take h (data posemb)) = h" using len by simp
  have wc: "wf_array ?cat" using zl lt by (simp add: wf_array_def algebra_simps)
  have cp: "copy_array ?pe ?cat = Inr \<lparr>shape = shape ?pe, data = data ?cat\<rparr>"
    using new wc by (intro copy_array_same) simp_all
  let ?a = "\<lparr>shape = shape ?pe, data = data ?cat\<rparr>"
  have "load_from_posemb zoom m w
          = Inr (m\<lparr>transformer := (transformer m)\<lparr>position_embeddings := ?a\<rparr>\<rparr>)"
    using key tok old new ne st sg r1 r2 cc cp
    by (simp add: load_from_posemb_def lookup_def bind_def Let_def int_sqrt_square
        int_sqrt_square_int)
  moreover have "take h (data ?a) = take h (data posemb)" using lt by simp
  moreover have "drop h (data ?a) = data ?z" using lt by simp
  ultimately show ?thesis by (intro exI[of _ ?a]) simp
qed

lemma int_sqrt_le: "int_sqrt n * int_sqrt n \<le> n"
proof -
  let ?f = "\<lfloor>sqrt (real n)\<rfloor>"
  have nn: "0 \<le> ?f" by simp
  have "real_of_int ?f \<le> sqrt (real n)" by (rule of_int_floor_le)
  moreover have "0 \<le> real_of_int ?f" using nn by simp
  ultimately have "real_of_int ?f * real_of_int ?f \<le> sqrt (real n) * sqrt (real n)"
    by (intro mult_mono) simp_all
  then have "real_of_int (?f * ?f) \<le> real n" by simp
  then have "?f * ?f \<le> int n" by linarith
  then have "nat (?f * ?f) \<le> n" by simp
  then show ?thesis using nn by (simp add: int_sqrt_def nat_mult_distrib)
qed

text \<open>
  C8, amended. With the classifier \<open>token\<close>, a checkpoint table of \<open>L\<close> spatial rows
  and a model table of \<open>N\<close> spatial rows of the same width \<open>h\<close>, \<open>L \<noteq> N\<close>, where
  \<open>L\<close> and \<open>N\<close> are perfect squares: the import succeeds, the new table has the
  model's shape, its first row is the checkpoint's first row, and its other rows are the
  zoom of the checkpoint's other rows reshaped into the square grid of side
  \<open>int(sqrt(L))\<close>, with the factors \<open>int(sqrt(N)) / int(sqrt(L))\<close>.
\<close>

theorem load_from_posemb_resizes:
  assumes tok: "classifier m = ''token''"
    and key: "w ''Transformer/posembed_input/pos_embedding'' = Some posemb"
    and old: "shape posemb = [1, L + 1, h]" "wf_array posemb"
    and new: "shape (position_embeddings (transformer m)) = [1, N + 1, h]"
    and diff: "L \<noteq> N"
    and sq: "int_sqrt L * int_sqrt L = L" "int_sqrt N * int_sqrt N = N"
    and pos: "0 < L" "0 < N" "0 < h"
    and zoom: "zoom_resizes zoom"
  shows "\<exists>a. load_from_posemb zoom m w
               = Inr (m\<lparr>transformer := (transformer m)\<lparr>position_embeddings := a\<rparr>\<rparr>) \<and>
             shape a = shape (position_embeddings (transformer m)) \<and>
             take h (data a) = take h (data posemb) \<and>
             drop h (data a)
               = data (zoom \<lparr>shape = [int_sqrt L, int_sqrt L, h], data = drop h (data posemb)\<rparr>
                            [real (int_sqrt N) / real (int_sqrt L),
                             real (int_sqrt N) / real (int_sqrt L), 1])"
proof -
  let ?g = "int_sqrt L" and ?g' = "int_sqrt N"
  have g: "0 < ?g" "0 < ?g'" using sq pos by (auto intro: Nat.gr0I)
  have o: "shape posemb = [1, ?g * ?g + 1, h]" using old(1) sq(1) by simp
  have n: "shape (position_embeddings (transformer m)) = [1, ?g' * ?g' + 1, h]"
    using new sq(2) by simp
  have d: "?g \<noteq> ?g'" using diff sq by metis
  show ?thesis
    by (rule load_from_posemb_square[where m = m and w = w and posemb = posemb
          and zoom = zoom and g = ?g and g' = ?g' and h = h,
          OF tok key o old(2) n d g pos(3) zoom])
qed

theorem load_from_posemb_resizes_witness:
  "load_from_posemb zoom_order1 model3 weights3
     = Inr (model3\<lparr>transformer := (transformer model3)
              \<lparr>position_embeddings :=
                 \<lparr>shape = [1, 10, 1],
                  data = [7, 0, 1/2, 1, 1, 3/2, 2, 2, 5/2, 3]\<rparr>\<rparr>\<rparr>)"
proof -
  let ?posemb = "\<lparr>shape = [1, 5, 1], data = [7, 0, 1, 2, 3]\<rparr> :: ndarray"
  have tok: "classifier model3 = ''token''" by (simp add: model3_def model1_def)
  have key: "weights3 ''Transformer/posembed_input/pos_embedding'' = Some ?posemb"
    by (simp add: weights3_def)
  have old: "shape ?posemb = [1, 4 + 1, 1]" "wf_array ?posemb"
    by (simp_all add: wf_array_def)
  have new: "shape (position_embeddings (transformer model3)) = [1, 9 + 1, 1]"
    by (simp add: model3_def)
  have "int_sqrt (2 * 2) = 2" by (rule int_sqrt_square)
  then have s4: "int_sqrt 4 = 2" by simp
  have "int_sqrt (3 * 3) = 3" by (rule int_sqrt_square)
  then have s9: "int_sqrt 9 = 3" by simp
  have sq: "int_sqrt 4 * int_sqrt 4 = 4" "int_sqrt 9 * int_sqrt 9 = 9"
    unfolding s4 s9 by simp_all
  from load_from_posemb_resizes[where m = model3 and w = weights3 and posemb = ?posemb
           and zoom = zoom_order1 and L = 4 and N = 9 and h = 1,
         OF tok key old new _ sq _ _ _ zoom_order1_resizes, unfolded s4 s9]
  obtain a where a:
    "load_from_posemb zoom_order1 model3 weights3
       = Inr (model3\<lparr>transformer := (transformer model3)\<lparr>position_embeddings := a\<rparr>\<rparr>)"
    "shape a = shape (position_embeddings (transformer model3))"
    "take 1 (data a) = take 1 (data ?posemb)"
    "drop 1 (data a) = data (zoom_order1 \<lparr>shape = [2, 2, 1], data = drop 1 (data ?posemb)\<rparr>
                               [real 3 / real 2, real 3 / real 2, 1])"
    by auto
  have "data a = take 1 (data a) @ drop 1 (data a)" by simp
  also have "\<dots> = [7, 0, 1/2, 1, 1, 3/2, 2, 2, 5/2, 3]"
    unfolding a(3,4) using zoom_ramp by simp
  finally have d: "data a = [7, 0, 1/2, 1, 1, 3/2, 2, 2, 5/2, 3]" .
  have s: "shape a = [1, 10, 1]" using a(2) by (simp add: model3_def)
  have "a = \<lparr>shape = [1, 10, 1], data = [7, 0, 1/2, 1, 1, 3/2, 2, 2, 5/2, 3]\<rparr>"
    using d s by (cases a) simp
  with a(1) show ?thesis by simp
qed

text \<open>
  C8 as stated has no condition on the counts. A model with two spatial rows and a
  checkpoint with one: the classifier is \<open>token\<close>, the sizes differ, and the import
  builds a table of two rows (\<open>int(sqrt(2)) = 1\<close>) whose copy into the model's table
  of three rows raises \<open>RuntimeError\<close>.
\<close>

theorem load_from_posemb_nonsquare_counterexample:
  "classifier model2 = ''token'' \<and>
   weights2 ''Transformer/posembed_input/pos_embedding''
     = Some \<lparr>shape = [1, 2, 1], data = [7, 9]\<rparr> \<and>
   shape (position_embeddings (transformer model2)) = [1, 3, 1] \<and>
   load_from_posemb zoom_order1 model2 weights2 = Inl RuntimeError"
proof -
  have s1: "int_sqrt (Suc 0) = Suc 0" using int_sqrt_unique[of 1 1] by simp
  have s2: "int_sqrt 2 = Suc 0" using int_sqrt_unique[of 1 2] by simp
  show ?thesis
    by (simp add: model2_def model1_def weights2_def load_from_posemb_def lookup_def bind_def
        slice_tok_def slice_grid_def s1 s2 reshape3_def zoom_order1_def interp1_def
        zoom_coord_def concatenate1_def copy_array_def broadcastable_def Let_def)
qed

text \<open>
  When the number of the checkpoint's spatial rows is not a perfect square, the import
  raises: the reshape fails, or the reshaped grid has wider rows than the token part and
  the concatenation fails.
\<close>

lemma load_from_posemb_rejects_nonsquare:
  assumes tok: "classifier m = ''token''"
    and key: "w ''Transformer/posembed_input/pos_embedding'' = Some posemb"
    and old: "shape posemb = [1, L + 1, h]" "wf_array posemb"
    and ne: "shape posemb \<noteq> shape (position_embeddings (transformer m))"
    and nsq: "int_sqrt L * int_sqrt L \<noteq> L"
    and pos: "0 < h"
    and zoom: "zoom_resizes zoom"
  shows "load_from_posemb zoom m w \<noteq> Inr m'"
proof
  assume ok: "load_from_posemb zoom m w = Inr m'"
  let ?g = "int_sqrt L"
  let ?N = "nat (int (shape (position_embeddings (transformer m)) ! 1) - 1)"
  let ?g' = "int_sqrt ?N"
  have lt: "?g * ?g < L" using int_sqrt_le[of L] nsq by linarith
  have len: "length (data posemb) = (L + 1) * h"
    using old by (simp add: wf_array_def)
  have st: "slice_tok 1 posemb = Inr \<lparr>shape = [1, 1, h], data = take h (data posemb)\<rparr>"
    using old by (simp add: slice_tok_def)
  have sg: "slice_grid 1 posemb = Inr \<lparr>shape = [L, h], data = drop h (data posemb)\<rparr>"
    using old len by (simp add: slice_grid_def)
  let ?sl = "\<lparr>shape = [L, h], data = drop h (data posemb)\<rparr>"
  from ok key tok old ne st sg obtain grid where
    r1: "reshape3 RuntimeError ?g ?g ?sl = Inr grid"
    by (auto simp: load_from_posemb_def lookup_def bind_def Let_def split: sum.splits if_splits)
  then have g0: "?g * ?g \<noteq> 0" and dv: "(L * h) mod (?g * ?g) = 0"
    and grid: "grid = \<lparr>shape = [?g, ?g, (L * h) div (?g * ?g)], data = drop h (data posemb)\<rparr>"
    by (auto simp: reshape3_def Let_def split: if_splits)
  let ?k = "(L * h) div (?g * ?g)"
  have "?g * ?g dvd L * h" using dv by (simp add: mod_eq_0_iff_dvd)
  then have kk: "?k * (?g * ?g) = L * h" by (rule dvd_div_mult_self)
  have "?g * ?g * h < L * h" using lt pos by simp
  then have "(?g * ?g) * h < ?k * (?g * ?g)" using kk by simp
  then have hk: "h < ?k" by (simp add: mult.commute)
  have ld: "length (drop h (data posemb)) = ?g * ?g * ?k" using len kk by (simp add: mult.commute)
  let ?z = "zoom grid [real ?g' / real ?g, real ?g' / real ?g, 1]"
  from zoom g0 ld have zs: "shape ?z = [?g', ?g', ?k]"
    unfolding zoom_resizes_def grid by auto
  from ok key tok old ne st sg r1 obtain z2 cat where
    r2: "reshape3 ValueError 1 (?g' * ?g') ?z = Inr z2"
    and cc: "concatenate1 \<lparr>shape = [1, 1, h], data = take h (data posemb)\<rparr> z2 = Inr cat"
    by (auto simp: load_from_posemb_def lookup_def bind_def Let_def split: sum.splits if_splits)
  from r2 zs have "shape z2 ! 2 = ?k" "length (shape z2) = 3"
    by (auto simp: reshape3_def Let_def split: if_splits)
  with cc hk show False
    by (auto simp: concatenate1_def split: list.splits if_splits)
qed


text \<open>The same when the number of the model's spatial rows is not a perfect square.\<close>

lemma load_from_posemb_rejects_nonsquare_model:
  assumes tok: "classifier m = ''token''"
    and key: "w ''Transformer/posembed_input/pos_embedding'' = Some posemb"
    and old: "shape posemb = [1, L + 1, h]" "wf_array posemb"
    and new: "shape (position_embeddings (transformer m)) = [1, N + 1, h']"
    and ne: "shape posemb \<noteq> shape (position_embeddings (transformer m))"
    and nsq: "int_sqrt N * int_sqrt N \<noteq> N"
  shows "load_from_posemb zoom m w \<noteq> Inr m'"
proof
  assume ok: "load_from_posemb zoom m w = Inr m'"
  let ?g' = "int_sqrt N"
  have len: "length (data posemb) = (L + 1) * h"
    using old by (simp add: wf_array_def)
  have st: "slice_tok 1 posemb = Inr \<lparr>shape = [1, 1, h], data = take h (data posemb)\<rparr>"
    using old by (simp add: slice_tok_def)
  have sg: "slice_grid 1 posemb = Inr \<lparr>shape = [L, h], data = drop h (data posemb)\<rparr>"
    using old len by (simp add: slice_grid_def)
  from ok key tok old new ne st sg obtain z z2 cat where
    r2: "reshape3 ValueError 1 (?g' * ?g') z = Inr z2"
    and cc: "concatenate1 \<lparr>shape = [1, 1, h], data = take h (data posemb)\<rparr> z2 = Inr cat"
    and cp: "copy_array (position_embeddings (transformer m)) cat \<noteq> Inl RuntimeError"
    by (auto simp: load_from_posemb_def lookup_def bind_def Let_def copy_array_def
             split: sum.splits if_splits)
  from r2 have g0: "?g' * ?g' \<noteq> 0"
    and z2: "shape z2 = [1, ?g' * ?g', prod_list (shape z) div (1 * (?g' * ?g'))]"
    by (auto simp: reshape3_def Let_def split: if_splits)
  from cc z2 have sc: "shape cat = [1, 1 + ?g' * ?g', h]"
    by (auto simp: concatenate1_def split: if_splits)
  from cp have "broadcastable (shape cat) (shape (position_embeddings (transformer m)))"
    by (auto simp: copy_array_def split: if_splits)
  with sc new have "1 + ?g' * ?g' = N + 1 \<or> 1 + ?g' * ?g' = 1"
    by (simp add: broadcastable_def)
  with g0 nsq show False by auto
qed


text \<open>
  And when the widths differ: a checkpoint table of width 2 for a 1 by 1 grid and the
  model's table of width 1 for a 2 by 2 grid. The table built has width 2 and cannot be
  copied into the model's.
\<close>

lemma load_from_posemb_width_mismatch_raises:
  "load_from_posemb zoom_order1 model1
     (map_of [(''Transformer/posembed_input/pos_embedding'',
               \<lparr>shape = [1, 2, 2], data = [7, 8, 9, 10]\<rparr>)])
     = Inl RuntimeError"
proof -
  have s1: "int_sqrt (Suc 0) = Suc 0" using int_sqrt_unique[of 1 1] by simp
  have "int_sqrt (2 * 2) = 2" by (rule int_sqrt_square)
  then have s4: "int_sqrt 4 = 2" by simp
  show ?thesis
    by (simp add: model1_def load_from_posemb_def lookup_def bind_def
        slice_tok_def slice_grid_def s1 s4 reshape3_def zoom_order1_def
        concatenate1_def copy_array_def broadcastable_def Let_def)
qed

section \<open>Properties of StochasticDepth\<close>

text \<open>
  C6. In training mode the forward call returns the input unchanged when the drawn
  sample is below the drop probability, and the wrapped module's output scaled by
  \<open>1 - p\<close> otherwise. In inference mode it returns the wrapped module's output
  unscaled and draws no sample, so two inference calls on the same input give the same
  output whatever the state of the generator.
\<close>

theorem StochasticDepth_forward_modes:
  "(fst (uniform g) < sd_p sd \<longrightarrow>
      fst (StochasticDepth_forward call sd True g x) = x) \<and>
   (\<not> fst (uniform g) < sd_p sd \<longrightarrow>
      fst (StochasticDepth_forward call sd True g x)
        = scale (1 - sd_p sd) (call (sd_module sd) x)) \<and>
   StochasticDepth_forward call sd False g x = (call (sd_module sd) x, g) \<and>
   fst (StochasticDepth_forward call sd False g x)
     = fst (StochasticDepth_forward call sd False g' x)"
  by (simp add: StochasticDepth_forward_def split: prod.split)

theorem StochasticDepth_forward_modes_witness:
  "fst (StochasticDepth_forward scale \<lparr>sd_module = 4, sd_p = 1/2\<rparr> True (\<lambda>n. 1/4) [[[1]]])
     = [[[1]]] \<and>
   fst (StochasticDepth_forward scale \<lparr>sd_module = 4, sd_p = 1/2\<rparr> True (\<lambda>n. 3/4) [[[1]]])
     = [[[2]]] \<and>
   fst (StochasticDepth_forward scale \<lparr>sd_module = 4, sd_p = 1/2\<rparr> False (\<lambda>n. 1/4) [[[1]]])
     = [[[4]]]"
  using StochasticDepth_forward_modes
          [of "\<lambda>n. 1/4" "\<lparr>sd_module = 4, sd_p = 1/2\<rparr>" scale "[[[1]]]" "\<lambda>n. 1/4"]
        StochasticDepth_forward_modes
          [of "\<lambda>n. 3/4" "\<lparr>sd_module = 4, sd_p = 1/2\<rparr>" scale "[[[1]]]" "\<lambda>n. 3/4"]
  by (simp add: uniform_def scale_def)

text \<open>
  C7. Construction with a drop probability \<open>p \<le> 0\<close> or \<open>p \<ge> 1\<close> raises
  \<open>ValueError\<close>; construction with \<open>0 < p < 1\<close> succeeds and stores the module
  and the probability.
\<close>

theorem StochasticDepth_init_validates:
  "(p \<le> 0 \<or> 1 \<le> p \<longrightarrow> StochasticDepth_init m p = Inl ValueError) \<and>
   (0 < p \<and> p < 1 \<longrightarrow> StochasticDepth_init m p = Inr \<lparr>sd_module = m, sd_p = p\<rparr>)"
  by (auto simp: StochasticDepth_init_def)

theorem StochasticDepth_init_validates_witness:
  "StochasticDepth_init (scale 2) 0 = Inl ValueError \<and>
   StochasticDepth_init (scale 2) 1 = Inl ValueError \<and>
   StochasticDepth_init (scale 2) (1/2) = Inr \<lparr>sd_module = scale 2, sd_p = 1/2\<rparr>"
  using StochasticDepth_init_validates [of 0 "scale 2"]
        StochasticDepth_init_validates [of 1 "scale 2"]
        StochasticDepth_init_validates [of "1/2" "scale 2"]
  by simp

end
